theory Spec2Isabelle
  imports Main "HOL-Library.Word"
begin

section \<open>The RMS-norm operator of DynamicDispatch (ops/mladfrmsnorm/mladfrmsnorm.cpp)\<close>

text \<open>
  The development embeds the member functions of the class template \<open>rms_norm\<close> at its
  only instantiation, \<open>rms_norm<uint16_t, uint16_t, uint16_t>\<close>. Exceptions are values of
  the type \<open>error\<close>; a member function that writes members takes the instance and returns
  the new one; the device layer (buffer objects, synchronisations, kernel runs) is a trace
  of events held in the process state, next to the class's static members.
\<close>

subsection \<open>Exceptions\<close>

text \<open>
  \<open>Runtime_error\<close> carries the message of a \<open>std::runtime_error\<close> thrown by the file,
  \<open>Out_of_range\<close> is the \<open>std::out_of_range\<close> of \<open>vector::at\<close> and \<open>map::at\<close>,
  \<open>Lookup_error\<close> is the failure of the instruction registry for the named key.
  \<open>Undefined_behaviour\<close> marks the places where the C++ has no defined result
  (dereferencing \<open>end()\<close>, a null context or buffer handle, a copy beyond a region): the
  model stops there, so that no statement depends on what happens afterwards.
\<close>

datatype error =
    Runtime_error string
  | Out_of_range
  | Lookup_error string
  | Undefined_behaviour

subsection \<open>Tensors\<close>

type_synonym byte = "8 word"

text \<open>\<open>size_t\<close> and \<open>int\<close> of the 64-bit targets of the library.\<close>

type_synonym size_t = "64 word"

type_synonym int32 = "32 word"

text \<open>
  Modelled from the spec: the declaration of \<open>Tensor\<close> (ops/op_interface.hpp) is not among
  the sources. The spec's data model gives a tensor a data handle, an element dtype and a
  shape; the file reads the members \<open>data\<close> and \<open>shape\<close>, and reads a dimension into an
  \<open>int\<close> in one place and into a byte count in another: a dimension is a \<open>size_t\<close>. The
  field \<open>data\<close> is the caller's memory region the handle points to, as a list of bytes.
\<close>

record Tensor =
  data :: "byte list"
  shape :: "size_t list"
  dtype :: string

text \<open>
  The conversions the file leaves to the compiler: a \<open>size_t\<close> assigned to an \<open>int\<close> keeps
  its low 32 bits, read as two's complement; an \<open>int\<close> compared or multiplied with a
  \<open>size_t\<close> is first converted to \<open>size_t\<close>, modulo \<open>2 ^ 64\<close>. An \<open>int\<close> is held as the
  integer it denotes, between \<open>- 2 ^ 31\<close> and \<open>2 ^ 31 - 1\<close>.
\<close>

definition to_int :: "size_t \<Rightarrow> int" where
  "to_int n = sint (ucast n :: int32)"

definition to_size_t :: "int \<Rightarrow> size_t" where
  "to_size_t i = word_of_int i"

text \<open>\<open>std::vector::at\<close>: a checked read.\<close>

definition at :: "'a list \<Rightarrow> nat \<Rightarrow> error + 'a" where
  "at xs i = (if i < length xs then Inr (xs ! i) else Inl Out_of_range)"

subsection \<open>Element sizes of the instantiation\<close>

definition sizeof_LhsT :: nat where "sizeof_LhsT = 2"
definition sizeof_WtsT :: nat where "sizeof_WtsT = 2"
definition sizeof_OutT :: nat where "sizeof_OutT = 2"

subsection \<open>Helpers of utils/utils.hpp\<close>

text \<open>
  The three helpers the file calls, \<open>utils::tuple_to_vector\<close>,
  \<open>utils::running_product_with_skips\<close> and \<open>utils::max_element_count_with_skips\<close>
  (utils/utils.hpp), are not among the sources. The spec sizes a buffer by the maximum
  over the supported shapes of the element count, \<open>rows * cols\<close>, "optionally excluding
  specific axes".
\<close>

text \<open>
  Modelled from the spec: \<open>utils::tuple_to_vector\<close> is missing; a shape pair becomes the
  vector of its rows and columns.
\<close>

definition tuple_to_vector :: "'a \<times> 'a \<Rightarrow> 'a list" where
  "tuple_to_vector t = [fst t, snd t]"

text \<open>
  Modelled from the spec: \<open>utils::running_product_with_skips\<close> is missing; the element
  count is the product of the dimensions whose index is not among the skipped axes.
  \<open>product_from i\<close> multiplies a suffix whose first dimension has index \<open>i\<close>.
\<close>

fun product_from :: "nat \<Rightarrow> ('a::comm_monoid_mult) list \<Rightarrow> nat list \<Rightarrow> 'a" where
  "product_from i [] skips = 1"
| "product_from i (x # xs) skips =
     (if i \<in> set skips then product_from (Suc i) xs skips
      else x * product_from (Suc i) xs skips)"

definition running_product_with_skips :: "('a::comm_monoid_mult) list \<Rightarrow> nat list \<Rightarrow> 'a" where
  "running_product_with_skips nums skip_indexes = product_from 0 nums skip_indexes"

text \<open>
  Modelled from the spec: \<open>utils::max_element_count_with_skips\<close> is missing; it is the
  maximum of that element count over the shapes of the table (0 for an empty table).
\<close>

fun max_element_count_with_skips :: "int list list \<Rightarrow> nat list \<Rightarrow> int" where
  "max_element_count_with_skips [] skips = 0"
| "max_element_count_with_skips [s] skips = running_product_with_skips s skips"
| "max_element_count_with_skips (s # ss) skips =
     max (running_product_with_skips s skips) (max_element_count_with_skips ss skips)"

subsection \<open>The anonymous namespace: \<open>extract_MK\<close>\<close>

definition rank_message :: string where
  "rank_message = ''rmsnorm expects a rank 2 tensor [Rows,Cols]''"

text \<open>
  \<open>M = input.shape.at(0); K = input.shape.at(1);\<close> after the check of the rank, \<open>M\<close> and
  \<open>K\<close> being \<open>int\<close>s: each dimension is assigned to an \<open>int\<close>, and the pair of the two
  \<open>int\<close>s is returned.
\<close>

definition extract_MK :: "Tensor \<Rightarrow> error + (int \<times> int)" where
  "extract_MK input =
     (if length (shape input) \<noteq> 2 then Inl (Runtime_error rank_message)
      else Inr (to_int (shape input ! 0), to_int (shape input ! 1)))"

subsection \<open>Instruction keys\<close>

text \<open>\<open>std::to_string\<close> on an \<open>int\<close>: the decimal digits, with a minus sign below zero.\<close>

definition digit_char :: "nat \<Rightarrow> char" where
  "digit_char d = ''0123456789'' ! d"

function to_string_nat :: "nat \<Rightarrow> string" where
  "to_string_nat n =
     (if n < 10 then [digit_char n] else to_string_nat (n div 10) @ [digit_char (n mod 10)])"
  by pat_completeness auto
termination
  by (relation "measure (\<lambda>n. n)") auto

declare to_string_nat.simps [simp del]

definition to_string :: "int \<Rightarrow> string" where
  "to_string i = (if i < 0 then CHR ''-'' # to_string_nat (nat (- i)) else to_string_nat (nat i))"

definition get_instr_key :: "string \<Rightarrow> int \<Rightarrow> int \<Rightarrow> string" where
  "get_instr_key prefix m k =
     ''mladfrmsnorm_'' @ prefix @ ''_'' @ to_string m @ ''_'' @ to_string k"

subsection \<open>The environment of the operator\<close>

text \<open>
  What the file takes from outside is a parameter of the model: the name of the hardware
  image (\<open>getXCLBinName\<close> joins a base directory and a macro, neither among the sources),
  the backing store of instruction streams, the function the accelerator computes from an
  instruction stream and the two input regions, and the readings of
  \<open>GET_ELAPSED_TIME_NS\<close>, numbered in the order they are taken.
\<close>

record environment =
  xclbin_name :: string
  artifact :: "string \<Rightarrow> byte list option"
  kernel :: "byte list \<Rightarrow> byte list \<Rightarrow> byte list \<Rightarrow> byte list"
  now :: "nat \<Rightarrow> int"

subsection \<open>Device layer\<close>

datatype bo_name = A_bo | B_bo | C_bo

text \<open>
  The interactions with buffers and the device, in the order the code performs them:
  acquiring the context of a hardware image, allocating a buffer object of a byte size,
  copying bytes from host memory into a mapped buffer, synchronising a buffer to the
  device, running the kernel with the instruction stream of a key and waiting for it,
  synchronising a buffer from the device, copying bytes from a mapped buffer to host
  memory. The log lines of \<open>RYZENAI_LOG_INFO\<close> and \<open>RYZENAI_LOG_TRACE\<close> are not modelled.
\<close>

datatype event =
    Get_instance string
  | Bo_alloc bo_name nat
  | Host_to_bo bo_name nat
  | Sync_to_device bo_name
  | Kernel_run string
  | Sync_from_device bo_name
  | Bo_to_host bo_name nat

text \<open>
  \<open>memcpy(dst, src, n)\<close> on two regions given by their contents; a copy that leaves either
  region has no defined result.
\<close>

definition memcpy :: "byte list \<Rightarrow> byte list \<Rightarrow> nat \<Rightarrow> byte list option" where
  "memcpy dst src n =
     (if n \<le> length src \<and> n \<le> length dst then Some (take n src @ drop n dst) else None)"

text \<open>The accelerator writes its result into the output region, whose size is fixed.\<close>

definition device_write :: "byte list \<Rightarrow> byte list \<Rightarrow> byte list" where
  "device_write region result = take (length region) (result @ drop (length result) region)"

subsection \<open>The instruction registry\<close>

text \<open>
  Modelled from the spec: the class \<open>instruction_registry\<close> (utils/instruction_registry.hpp)
  is not among the sources. By the spec, registration declares the candidate keys and loads
  nothing; the first request for a registered key reads the backing artifact and caches it,
  later requests return the cached entry; a key that was never registered, or whose
  artifact is missing, fails with a lookup error.
\<close>

record instruction_registry =
  hw_ctx :: "string option"
  candidates :: "string list"
  layer_param_keys :: "string list"
  loaded :: "(string \<times> byte list) list"

text \<open>
  Modelled from the spec: the default-constructed registry is missing; no context, no
  candidate key, nothing loaded.
\<close>

definition empty_registry :: instruction_registry where
  "empty_registry = \<lparr>hw_ctx = None, candidates = [], layer_param_keys = [], loaded = []\<rparr>"

text \<open>
  Modelled from the spec: \<open>instruction_registry::setup_hw_ctx\<close> is missing; the registry keeps
  the context it is given.
\<close>

definition setup_hw_ctx :: "instruction_registry \<Rightarrow> string option \<Rightarrow> instruction_registry" where
  "setup_hw_ctx reg ctx = reg\<lparr>hw_ctx := ctx\<rparr>"

text \<open>
  Modelled from the spec: \<open>instruction_registry::add_instructions\<close> is missing; the keys are
  registered as candidates, none is loaded.
\<close>

definition add_instructions ::
  "instruction_registry \<Rightarrow> (string \<times> bool) list \<Rightarrow> instruction_registry" where
  "add_instructions reg instructions =
     reg\<lparr>candidates := candidates reg @ map fst instructions\<rparr>"

text \<open>
  Modelled from the spec: \<open>instruction_registry::add_layer_params\<close> is missing; it
  registers the keys of layer parameters (the file passes none).
\<close>

definition add_layer_params ::
  "instruction_registry \<Rightarrow> (string \<times> bool) list \<Rightarrow> instruction_registry" where
  "add_layer_params reg params =
     reg\<lparr>layer_param_keys := layer_param_keys reg @ map fst params\<rparr>"

text \<open>
  Modelled from the spec: \<open>instruction_registry::get_instr_bo\<close> is missing; an unregistered
  key fails, a registered key is served from the cache or loaded from the backing store
  and cached, and fails when the store has no artifact for it.
\<close>

definition get_instr_bo ::
  "environment \<Rightarrow> instruction_registry \<Rightarrow> string \<Rightarrow> error + (byte list \<times> instruction_registry)" where
  "get_instr_bo env reg key =
     (if key \<notin> set (candidates reg) then Inl (Lookup_error key)
      else case map_of (loaded reg) key of
        Some blob \<Rightarrow> Inr (blob, reg)
      | None \<Rightarrow>
          (case artifact env key of
             None \<Rightarrow> Inl (Lookup_error key)
           | Some blob \<Rightarrow> Inr (blob, reg\<lparr>loaded := (key, blob) # loaded reg\<rparr>)))"

subsection \<open>Process state and operator instance\<close>

text \<open>
  The static members the file defines (\<open>logger_flag\<close>, \<open>rms_norm_count\<close>,
  \<open>instr_reg_flag\<close>) belong to the process, with the number of clock readings taken so
  far and the trace of the device layer.
\<close>

record process =
  logger_flag :: bool
  rms_norm_count :: nat
  instr_reg_flag :: bool
  clock_reads :: nat
  trace :: "event list"

definition initial_process :: process where
  "initial_process =
     \<lparr>logger_flag = False, rms_norm_count = 0, instr_reg_flag = False,
      clock_reads = 0, trace = []\<rparr>"

text \<open>
  Modelled from the spec: the class declaration (ops/mladfrmsnorm/mladfrmsnorm.hpp) is not
  among the sources. The fields are the members the file names. The file gives out-of-class
  definitions for three static members and for no other, so every other member, the
  registry \<open>instr_reg\<close> included, is a field of the instance; the spec's data model has
  the staging buffers and the timing record owned by one operator instance. A buffer
  object is \<open>None\<close> until it is allocated, and then the contents of its region.
  Member names are written without their trailing underscore, which the record syntax
  does not admit in an update.
\<close>

record rms_norm =
  txnbin_operand_header :: "string \<rightharpoonup> string"
  default_shapes :: "string \<rightharpoonup> (int \<times> int) list"
  rms_norm_id :: nat
  debug :: bool
  operand_dtype :: string
  operand_dtype_size :: nat
  txn_fname_prefix :: string
  xrt_ctx :: "string option"
  instr_reg :: instruction_registry
  a_bo :: "byte list option"
  b_bo :: "byte list option"
  c_bo :: "byte list option"
  operand_size_in_bytes :: nat
  wts_size_in_bytes :: nat
  a_copy_time :: int
  a_sync_time :: int
  b_copy_time :: int
  b_sync_time :: int
  c_copy_time :: int
  c_sync_time :: int
  run_aie_time :: int
  num_run_aie :: int

text \<open>The members as they are when the constructor's body starts.\<close>

definition default_members :: rms_norm where
  "default_members =
     \<lparr>txnbin_operand_header = Map.empty, default_shapes = Map.empty, rms_norm_id = 0,
      debug = False, operand_dtype = [], operand_dtype_size = 0, txn_fname_prefix = [],
      xrt_ctx = None, instr_reg = empty_registry, a_bo = None, b_bo = None, c_bo = None,
      operand_size_in_bytes = 0, wts_size_in_bytes = 0,
      a_copy_time = 0, a_sync_time = 0, b_copy_time = 0, b_sync_time = 0,
      c_copy_time = 0, c_sync_time = 0, run_aie_time = 0, num_run_aie = 0\<rparr>"

definition reset_counters :: "rms_norm \<Rightarrow> rms_norm" where
  "reset_counters s =
     s\<lparr>a_copy_time := 0, a_sync_time := 0, b_copy_time := 0, b_sync_time := 0,
       c_copy_time := 0, c_sync_time := 0, run_aie_time := 0, num_run_aie := 0\<rparr>"

subsection \<open>\<open>isSupportedShape\<close>\<close>

fun shape_loop :: "(int \<times> int) list \<Rightarrow> int \<times> int \<Rightarrow> bool" where
  "shape_loop [] shape_operand = False"
| "shape_loop (supported # rest) shape_operand =
     (if supported = shape_operand then True else shape_loop rest shape_operand)"

definition isSupportedShape :: "rms_norm \<Rightarrow> Tensor \<Rightarrow> error + bool" where
  "isSupportedShape s operand =
     (case default_shapes s (txn_fname_prefix s) of
        None \<Rightarrow> Inl Undefined_behaviour
      | Some supported_shapes \<Rightarrow>
          (case extract_MK operand of
             Inl e \<Rightarrow> Inl e
           | Inr shape_operand \<Rightarrow> Inr (shape_loop supported_shapes shape_operand)))"

subsection \<open>\<open>setup_instr_registry\<close> and \<open>initialize_const_params\<close>\<close>

definition setup_instr_registry :: "rms_norm \<Rightarrow> error + rms_norm" where
  "setup_instr_registry s =
     (case default_shapes s (txn_fname_prefix s) of
        None \<Rightarrow> Inl Undefined_behaviour
      | Some supported_shapes \<Rightarrow>
          let instructions =
                map (\<lambda>tensor. (get_instr_key (txn_fname_prefix s) (fst tensor) (snd tensor), False))
                  supported_shapes;
              layer_params = []
          in Inr (s\<lparr>instr_reg :=
                      add_layer_params
                        (add_instructions (setup_hw_ctx (instr_reg s) (xrt_ctx s)) instructions)
                        layer_params\<rparr>))"

text \<open>
  \<open>default_shapes["rmsnorm_a16"]\<close> is \<open>std::map::operator[]\<close>, which inserts an empty
  vector where the key is absent. The buffers are allocated on the device of the context;
  without a context the dereference has no defined result.
\<close>

definition initialize_const_params ::
  "process \<Rightarrow> rms_norm \<Rightarrow> Tensor list \<Rightarrow> (string \<rightharpoonup> 'any) \<Rightarrow> error option \<times> process \<times> rms_norm" where
  "initialize_const_params p s const_params attr =
     (let s1 = (case default_shapes s ''rmsnorm_a16'' of
                  None \<Rightarrow> s\<lparr>default_shapes := (default_shapes s)(''rmsnorm_a16'' \<mapsto> [])\<rparr>
                | Some entries \<Rightarrow> s);
          shape_vector = map tuple_to_vector (the (default_shapes s1 ''rmsnorm_a16''));
          operand_bytes =
            nat (max_element_count_with_skips shape_vector []) * operand_dtype_size s1;
          wts_bytes =
            nat (max_element_count_with_skips shape_vector [0]) * operand_dtype_size s1
      in case xrt_ctx s1 of
           None \<Rightarrow> (Some Undefined_behaviour, p, s1)
         | Some ctx \<Rightarrow>
             (None,
              p\<lparr>trace := trace p @ [Bo_alloc A_bo operand_bytes,
                                     Bo_alloc B_bo wts_bytes,
                                     Bo_alloc C_bo operand_bytes]\<rparr>,
              s1\<lparr>a_bo := Some (replicate operand_bytes 0),
                 b_bo := Some (replicate wts_bytes 0),
                 c_bo := Some (replicate operand_bytes 0)\<rparr>))"

subsection \<open>The constructor\<close>

definition dtype_message :: string where
  "dtype_message =
     ''rmsnorm only supportes homogeneous bfloat16 data type '' @
     ''for activation, weights matrices and result''"

definition rms_norm_ctor ::
  "environment \<Rightarrow> process \<Rightarrow> string \<Rightarrow> bool \<Rightarrow> (error + rms_norm) \<times> process" where
  "rms_norm_ctor env p dtype_tag load_xrt =
     (if dtype_tag \<noteq> ''bfloat16'' then (Inl (Runtime_error dtype_message), p)
      else
        let s1 = default_members
                   \<lparr>operand_dtype := dtype_tag,
                    operand_dtype_size := sizeof_LhsT,
                    txnbin_operand_header := Map.empty(''bfloat16'' \<mapsto> ''a16''),
                    default_shapes :=
                      Map.empty(''rmsnorm_a16'' \<mapsto>
                         [(2048, 4096), (1024, 4096), (512, 4096), (256, 4096), (128, 4096)]),
                    rms_norm_id := rms_norm_count p\<rparr>;
            p1 = p\<lparr>rms_norm_count := rms_norm_count p + 1\<rparr>;
            XCLBIN_FNAME = xclbin_name env
        in case txnbin_operand_header s1 (operand_dtype s1) of
             None \<Rightarrow> (Inl Out_of_range, p1)
           | Some header \<Rightarrow>
               (let s2 = s1\<lparr>txn_fname_prefix := ''rmsnorm_'' @ header\<rparr>;
                   loaded_xrt =
                     (if load_xrt then
                        let s3 = s2\<lparr>xrt_ctx := Some XCLBIN_FNAME\<rparr>;
                            p3 = p1\<lparr>trace := trace p1 @ [Get_instance XCLBIN_FNAME]\<rparr>
                        in if instr_reg_flag p3 then (Inr s3, p3)
                           else (setup_instr_registry s3, p3\<lparr>instr_reg_flag := True\<rparr>)
                      else (Inr s2, p1))
               in case fst loaded_xrt of
                    Inl e \<Rightarrow> (Inl e, snd loaded_xrt)
                  | Inr s4 \<Rightarrow>
                      (Inr (reset_counters s4), (snd loaded_xrt)\<lparr>logger_flag := True\<rparr>)))"

subsection \<open>\<open>execute\<close>\<close>

definition unsupported_message :: string where
  "unsupported_message = ''Unsupported shape for rmsnorm''"

text \<open>
  The body of \<open>execute\<close> is embedded in the sections its comments mark. A section takes the
  process state and the instance and returns the exception thrown, if any, with both as
  the section left them. The \<open>k\<close>-th call of \<open>GET_ELAPSED_TIME_NS\<close> in the process reads
  \<open>now env k\<close>.
\<close>

text \<open>
  "a_bo copy" and "a_bo sync". The byte count is the element count of the tensor's shape,
  the product of its dimensions as natural numbers, times the element size.
\<close>

definition stage_a ::
  "environment \<Rightarrow> process \<Rightarrow> rms_norm \<Rightarrow> Tensor \<Rightarrow> error option \<times> process \<times> rms_norm" where
  "stage_a env p s input0 =
     (let s1 = s\<lparr>operand_size_in_bytes :=
                  running_product_with_skips (map unat (shape input0)) []
                    * operand_dtype_size s\<rparr>;
          t = clock_reads p;
          a_copy_start = now env t
      in case a_bo s1 of
           None \<Rightarrow> (Some Undefined_behaviour, p\<lparr>clock_reads := t + 1\<rparr>, s1)
         | Some a_bo_map \<Rightarrow>
             (case memcpy a_bo_map (data input0) (operand_size_in_bytes s1) of
                None \<Rightarrow> (Some Undefined_behaviour, p\<lparr>clock_reads := t + 1\<rparr>, s1)
              | Some a_bo_new \<Rightarrow>
                  let a_copy_stop = now env (t + 1);
                      a_sync_start = now env (t + 2);
                      a_sync_stop = now env (t + 3)
                  in (None,
                      p\<lparr>clock_reads := t + 4,
                        trace := trace p @ [Host_to_bo A_bo (operand_size_in_bytes s1),
                                            Sync_to_device A_bo]\<rparr>,
                      s1\<lparr>a_bo := Some a_bo_new,
                         a_copy_time := a_copy_stop - a_copy_start,
                         a_sync_time := a_sync_stop - a_sync_start\<rparr>)))"

text \<open>"b_bo copy" and "b_bo sync".\<close>

definition stage_b ::
  "environment \<Rightarrow> process \<Rightarrow> rms_norm \<Rightarrow> Tensor \<Rightarrow> error option \<times> process \<times> rms_norm" where
  "stage_b env p s input1 =
     (let s1 = s\<lparr>wts_size_in_bytes :=
                  running_product_with_skips (map unat (shape input1)) []
                    * operand_dtype_size s\<rparr>;
          t = clock_reads p;
          b_copy_start = now env t
      in case b_bo s1 of
           None \<Rightarrow> (Some Undefined_behaviour, p\<lparr>clock_reads := t + 1\<rparr>, s1)
         | Some b_bo_map \<Rightarrow>
             (case memcpy b_bo_map (data input1) (wts_size_in_bytes s1) of
                None \<Rightarrow> (Some Undefined_behaviour, p\<lparr>clock_reads := t + 1\<rparr>, s1)
              | Some b_bo_new \<Rightarrow>
                  let b_copy_stop = now env (t + 1);
                      b_sync_start = now env (t + 2);
                      b_sync_stop = now env (t + 3)
                  in (None,
                      p\<lparr>clock_reads := t + 4,
                        trace := trace p @ [Host_to_bo B_bo (wts_size_in_bytes s1),
                                            Sync_to_device B_bo]\<rparr>,
                      s1\<lparr>b_bo := Some b_bo_new,
                         b_copy_time := b_copy_stop - b_copy_start,
                         b_sync_time := b_sync_stop - b_sync_start\<rparr>)))"

text \<open>
  "prepare inst_bo and param_bo" and "launch the kernel": the key is looked up in the
  registry, the kernel of the context runs on the three buffers and is waited for.
\<close>

definition launch ::
  "environment \<Rightarrow> process \<Rightarrow> rms_norm \<Rightarrow> Tensor \<Rightarrow> error option \<times> process \<times> rms_norm" where
  "launch env p s input0 =
     (case at (shape input0) 0 of
        Inl e \<Rightarrow> (Some e, p, s)
      | Inr m \<Rightarrow>
          (case at (shape input0) 1 of
             Inl e \<Rightarrow> (Some e, p, s)
           | Inr k \<Rightarrow>
               (let instr_bo_key = get_instr_key (txn_fname_prefix s) (to_int m) (to_int k)
                in case get_instr_bo env (instr_reg s) instr_bo_key of
                     Inl e \<Rightarrow> (Some e, p, s)
                   | Inr found \<Rightarrow>
                       (let instr_bo = fst found;
                            s1 = s\<lparr>instr_reg := snd found\<rparr>;
                            instr_bo_words = length instr_bo div 4;
                            t = clock_reads p
                        in case (xrt_ctx s1, a_bo s1, b_bo s1, c_bo s1) of
                             (Some kernel_ctx, Some a_buf, Some b_buf, Some c_buf) \<Rightarrow>
                               (let run_aie_start = now env t;
                                    run_aie_stop = now env (t + 1)
                                in (None,
                                    p\<lparr>clock_reads := t + 2,
                                      trace := trace p @ [Kernel_run instr_bo_key]\<rparr>,
                                    s1\<lparr>c_bo := Some (device_write c_buf
                                                       (kernel env instr_bo a_buf b_buf)),
                                       run_aie_time :=
                                         run_aie_time s1 + (run_aie_stop - run_aie_start),
                                       num_run_aie := num_run_aie s1 + 1\<rparr>))
                           | _ \<Rightarrow> (Some Undefined_behaviour, p, s1)))))"

text \<open>
  "sync output activation to host memory" and "copy c_bo to host memory": the copy into
  the caller's tensor has the size stored in \<open>operand_size_in_bytes_\<close>.
\<close>

definition fetch_output ::
  "environment \<Rightarrow> process \<Rightarrow> rms_norm \<Rightarrow> Tensor list
     \<Rightarrow> error option \<times> process \<times> rms_norm \<times> Tensor list" where
  "fetch_output env p s output =
     (let t = clock_reads p;
          c_sync_start = now env t;
          c_sync_stop = now env (t + 1);
          p1 = p\<lparr>clock_reads := t + 2, trace := trace p @ [Sync_from_device C_bo]\<rparr>;
          s1 = s\<lparr>c_sync_time := c_sync_time s + (c_sync_stop - c_sync_start)\<rparr>
      in case at output 0 of
           Inl e \<Rightarrow> (Some e, p1, s1, output)
         | Inr output0 \<Rightarrow>
             (case c_bo s1 of
                None \<Rightarrow> (Some Undefined_behaviour, p1\<lparr>clock_reads := t + 3\<rparr>, s1, output)
              | Some c_bo_map \<Rightarrow>
                  (case memcpy (data output0) c_bo_map (operand_size_in_bytes s1) of
                     None \<Rightarrow> (Some Undefined_behaviour, p1\<lparr>clock_reads := t + 3\<rparr>, s1, output)
                   | Some aie_out \<Rightarrow>
                       (let c_copy_start = now env (t + 2);
                            c_copy_stop = now env (t + 3);
                            exec_end = now env (t + 4)
                        in (None,
                            p1\<lparr>clock_reads := t + 5,
                               trace := trace p1 @ [Bo_to_host C_bo (operand_size_in_bytes s1)]\<rparr>,
                            s1\<lparr>c_copy_time := c_copy_stop - c_copy_start\<rparr>,
                            output[0 := output0\<lparr>data := aie_out\<rparr>])))))"

text \<open>The four sections in sequence; an exception ends the call where it is thrown.\<close>

definition run_stages ::
  "environment \<Rightarrow> process \<Rightarrow> rms_norm \<Rightarrow> Tensor \<Rightarrow> Tensor \<Rightarrow> Tensor list
     \<Rightarrow> error option \<times> process \<times> rms_norm \<times> Tensor list" where
  "run_stages env p s input0 input1 output =
     (case stage_a env p s input0 of
        (Some e, p2, s2) \<Rightarrow> (Some e, p2, s2, output)
      | (None, p2, s2) \<Rightarrow>
          (case stage_b env p2 s2 input1 of
             (Some e, p3, s3) \<Rightarrow> (Some e, p3, s3, output)
           | (None, p3, s3) \<Rightarrow>
               (case launch env p3 s3 input0 of
                  (Some e, p4, s4) \<Rightarrow> (Some e, p4, s4, output)
                | (None, p4, s4) \<Rightarrow> fetch_output env p4 s4 output)))"

text \<open>
  \<open>execute\<close>: the two input accesses, the reset of the per-call counters, the first
  clock reading, the shape validation, then the sections above.
\<close>

definition execute ::
  "environment \<Rightarrow> process \<Rightarrow> rms_norm \<Rightarrow> Tensor list \<Rightarrow> Tensor list
     \<Rightarrow> error option \<times> process \<times> rms_norm \<times> Tensor list" where
  "execute env p s input output =
     (case at input 0 of
        Inl e \<Rightarrow> (Some e, p, s, output)
      | Inr input0 \<Rightarrow>
          (case at input 1 of
             Inl e \<Rightarrow> (Some e, p, s, output)
           | Inr input1 \<Rightarrow>
               (let s1 = reset_counters s;
                    exec_start = now env (clock_reads p);
                    p1 = p\<lparr>clock_reads := clock_reads p + 1\<rparr>
                in case isSupportedShape s1 input0 of
                     Inl e \<Rightarrow> (Some e, p1, s1, output)
                   | Inr supported \<Rightarrow>
                       if \<not> supported
                       then (Some (Runtime_error unsupported_message), p1, s1, output)
                       else run_stages env p1 s1 input0 input1 output)))"

subsection \<open>\<open>get_buffer_reqs\<close>\<close>

text \<open>
  Modelled from the spec: the declaration of \<open>OpArgMap\<close> (ops/op_interface.hpp) is not
  among the sources. An entry is the five values the file's initialisers list: the role,
  two argument indices, an offset and the byte size the caller must provision.
\<close>

datatype OpArgType = INPUT | OUTPUT

datatype OpArgMap = OpArgMap OpArgType nat nat nat nat

definition mismatch_result_message :: string where
  "mismatch_result_message =
     ''mismatch shape of activation and result not supported for rmsnorm'' @ [CHR 0x0A]"

definition mismatch_wts_message :: string where
  "mismatch_wts_message =
     ''Mismatched shape between rmsnorm weights and activation/result '' @
     ''not supported for rmsnorm''"

definition get_buffer_reqs ::
  "Tensor list \<Rightarrow> Tensor list \<Rightarrow> (string \<rightharpoonup> 'any) \<Rightarrow> error + OpArgMap list" where
  "get_buffer_reqs input output attr =
     (case at input 0 of
        Inl e \<Rightarrow> Inl e
      | Inr input0 \<Rightarrow>
     (case extract_MK input0 of
        Inl e \<Rightarrow> Inl e
      | Inr shape_operand \<Rightarrow>
     (case at input 1 of
        Inl e \<Rightarrow> Inl e
      | Inr input1 \<Rightarrow>
     (case at (shape input1) 0 of
        Inl e \<Rightarrow> Inl e
      | Inr shape_wts \<Rightarrow>
     (case at output 0 of
        Inl e \<Rightarrow> Inl e
      | Inr output0 \<Rightarrow>
     (case extract_MK output0 of
        Inl e \<Rightarrow> Inl e
      | Inr shape_result \<Rightarrow>
          if shape_operand \<noteq> shape_result then Inl (Runtime_error mismatch_result_message)
          else if to_size_t (snd shape_result) \<noteq> shape_wts
          then Inl (Runtime_error mismatch_wts_message)
          else
            (let num_elem_operand =
                   running_product_with_skips (tuple_to_vector shape_operand) [];
                 num_elem_wts = shape_wts;
                 input_1_bo_size = unat (to_size_t num_elem_operand * of_nat sizeof_LhsT);
                 input_2_bo_size = unat (num_elem_wts * of_nat sizeof_WtsT);
                 output_bo_size = unat (to_size_t num_elem_operand * of_nat sizeof_OutT)
             in Inr [OpArgMap INPUT 0 0 0 input_1_bo_size,
                     OpArgMap INPUT 1 1 0 input_2_bo_size,
                     OpArgMap OUTPUT 2 2 0 output_bo_size])))))))"

subsection \<open>Observations and a concrete process\<close>

text \<open>\<open>xrt::bo::size\<close>: the byte size of a buffer object, if it is allocated.\<close>

definition bo_size :: "byte list option \<Rightarrow> nat option" where
  "bo_size bo = map_option length bo"


text \<open>A trace segment in which no buffer object is allocated.\<close>

definition no_alloc :: "event list \<Rightarrow> bool" where
  "no_alloc evs \<longleftrightarrow> (\<forall>b n. Bo_alloc b n \<notin> set evs)"

text \<open>The components of what \<open>execute\<close> returns.\<close>

abbreviation status_of :: "error option \<times> process \<times> rms_norm \<times> Tensor list \<Rightarrow> error option" where
  "status_of r \<equiv> fst r"

abbreviation process_of :: "error option \<times> process \<times> rms_norm \<times> Tensor list \<Rightarrow> process" where
  "process_of r \<equiv> fst (snd r)"

abbreviation instance_of :: "error option \<times> process \<times> rms_norm \<times> Tensor list \<Rightarrow> rms_norm" where
  "instance_of r \<equiv> fst (snd (snd r))"

abbreviation output_of :: "error option \<times> process \<times> rms_norm \<times> Tensor list \<Rightarrow> Tensor list" where
  "output_of r \<equiv> snd (snd (snd r))"

text \<open>
  A process to run the operator in: the backing store holds the instruction stream of the
  shape (128, 4096) and no other, the accelerator returns its first input, the clock
  advances by one per reading. \<open>demo_ctor\<close> is the first construction in the process,
  \<open>demo_init\<close> the allocation of its buffers.
\<close>

definition demo_env :: environment where
  "demo_env =
     \<lparr>xclbin_name = ''rmsnorm.xclbin'',
      artifact = (\<lambda>key. if key = ''mladfrmsnorm_rmsnorm_a16_128_4096'' then Some [] else None),
      kernel = (\<lambda>instr a b. a),
      now = (\<lambda>k. int k)\<rparr>"

definition zero_tensor :: "size_t list \<Rightarrow> nat \<Rightarrow> Tensor" where
  "zero_tensor dims n = \<lparr>data = replicate n 0, shape = dims, dtype = ''bfloat16''\<rparr>"

definition demo_ctor :: "(error + rms_norm) \<times> process" where
  "demo_ctor = rms_norm_ctor demo_env initial_process ''bfloat16'' True"

definition demo_init :: "error option \<times> process \<times> rms_norm" where
  "demo_init =
     initialize_const_params (snd demo_ctor) (projr (fst demo_ctor)) []
       (Map.empty :: string \<rightharpoonup> unit)"

definition demo_process :: process where
  "demo_process = fst (snd demo_init)"

definition demo_instance :: rms_norm where
  "demo_instance = snd (snd demo_init)"

text \<open>
  The calls of the concrete process: a supported call \<open>demo_run1\<close> on the constructed
  instance, the same call again (\<open>demo_run2\<close>) and a call with the unsupported shape
  (100, 4096) (\<open>demo_unsupported\<close>) on the instance \<open>demo_run1\<close> leaves, a supported
  call with an output tensor of another shape (\<open>demo_larger_output\<close>), a second
  construction (\<open>demo_ctor2\<close>), and a call with the supported shape (256, 4096), whose
  instruction stream the backing store lacks (\<open>demo_lookup\<close>).
\<close>

definition demo_input :: "Tensor list" where
  "demo_input = [zero_tensor [128, 4096] 1048576, zero_tensor [4096] 8192]"

definition demo_output :: "Tensor list" where
  "demo_output = [zero_tensor [128, 4096] 1048576]"

definition demo_run1 :: "error option \<times> process \<times> rms_norm \<times> Tensor list" where
  "demo_run1 = execute demo_env demo_process demo_instance demo_input demo_output"

definition demo_run2 :: "error option \<times> process \<times> rms_norm \<times> Tensor list" where
  "demo_run2 =
     execute demo_env (process_of demo_run1) (instance_of demo_run1) demo_input
       (output_of demo_run1)"

definition demo_unsupported :: "error option \<times> process \<times> rms_norm \<times> Tensor list" where
  "demo_unsupported =
     execute demo_env (process_of demo_run1) (instance_of demo_run1)
       [zero_tensor [100, 4096] 819200, zero_tensor [4096] 8192] (output_of demo_run1)"


definition demo_ctor2 :: "(error + rms_norm) \<times> process" where
  "demo_ctor2 = rms_norm_ctor demo_env (snd demo_ctor) ''bfloat16'' True"


text \<open>
  Further calls: \<open>demo_wide_input\<close> has a primary input of \<open>2 ^ 32 + 128\<close> rows and
  4096 columns; \<open>demo_init2\<close> allocates the buffers of the instance of the second
  construction, \<open>demo_run_instance2\<close> is the supported call of \<open>demo_run1\<close> on that
  instance.
\<close>

definition demo_wide_input :: "Tensor list" where
  "demo_wide_input = [zero_tensor [4294967424, 4096] 1048576, zero_tensor [4096] 8192]"





section \<open>Properties\<close>

subsection \<open>Auxiliary facts\<close>

lemmas ctor_defs =
  rms_norm_ctor_def Let_def initial_process_def default_members_def setup_instr_registry_def
  reset_counters_def add_layer_params_def add_instructions_def setup_hw_ctx_def
  empty_registry_def sizeof_LhsT_def initialize_const_params_def tuple_to_vector_def
  running_product_with_skips_def

lemmas exec_defs =
  execute_def run_stages_def stage_a_def stage_b_def launch_def fetch_output_def at_def isSupportedShape_def
  extract_MK_def to_int_def memcpy_def get_instr_bo_def device_write_def zero_tensor_def

lemma demo_keys:
  "get_instr_key ''rmsnorm_a16'' 2048 4096 = ''mladfrmsnorm_rmsnorm_a16_2048_4096''"
  "get_instr_key ''rmsnorm_a16'' 1024 4096 = ''mladfrmsnorm_rmsnorm_a16_1024_4096''"
  "get_instr_key ''rmsnorm_a16'' 512 4096 = ''mladfrmsnorm_rmsnorm_a16_512_4096''"
  "get_instr_key ''rmsnorm_a16'' 256 4096 = ''mladfrmsnorm_rmsnorm_a16_256_4096''"
  "get_instr_key ''rmsnorm_a16'' 128 4096 = ''mladfrmsnorm_rmsnorm_a16_128_4096''"
  by (simp_all add: get_instr_key_def to_string_def to_string_nat.simps digit_char_def)

lemma demo_ctor_eq:
  "demo_ctor =
     (Inr \<lparr>txnbin_operand_header = Map.empty(''bfloat16'' \<mapsto> ''a16''),
           default_shapes = Map.empty(''rmsnorm_a16'' \<mapsto>
             [(2048, 4096), (1024, 4096), (512, 4096), (256, 4096), (128, 4096)]),
           rms_norm_id = 0, debug = False, operand_dtype = ''bfloat16'',
           operand_dtype_size = 2, txn_fname_prefix = ''rmsnorm_a16'',
           xrt_ctx = Some ''rmsnorm.xclbin'',
           instr_reg =
             \<lparr>hw_ctx = Some ''rmsnorm.xclbin'',
              candidates =
                [''mladfrmsnorm_rmsnorm_a16_2048_4096'', ''mladfrmsnorm_rmsnorm_a16_1024_4096'',
                 ''mladfrmsnorm_rmsnorm_a16_512_4096'', ''mladfrmsnorm_rmsnorm_a16_256_4096'',
                 ''mladfrmsnorm_rmsnorm_a16_128_4096''],
              layer_param_keys = [], loaded = []\<rparr>,
           a_bo = None, b_bo = None, c_bo = None,
           operand_size_in_bytes = 0, wts_size_in_bytes = 0,
           a_copy_time = 0, a_sync_time = 0, b_copy_time = 0, b_sync_time = 0,
           c_copy_time = 0, c_sync_time = 0, run_aie_time = 0, num_run_aie = 0\<rparr>,
      \<lparr>logger_flag = True, rms_norm_count = 1, instr_reg_flag = True, clock_reads = 0,
        trace = [Get_instance ''rmsnorm.xclbin'']\<rparr>)"
  by (simp add: demo_ctor_def demo_env_def ctor_defs demo_keys)

lemma demo_init_status: "fst demo_init = None"
  by (simp add: demo_init_def demo_ctor_eq initialize_const_params_def Let_def)

lemma demo_process_eq:
  "demo_process =
     \<lparr>logger_flag = True, rms_norm_count = 1, instr_reg_flag = True, clock_reads = 0,
      trace = [Get_instance ''rmsnorm.xclbin'', Bo_alloc A_bo 16777216, Bo_alloc B_bo 8192,
               Bo_alloc C_bo 16777216]\<rparr>"
  by (simp add: demo_process_def demo_init_def demo_ctor_eq initialize_const_params_def Let_def
      tuple_to_vector_def running_product_with_skips_def)

lemma demo_instance_eq:
  "demo_instance =
     \<lparr>txnbin_operand_header = Map.empty(''bfloat16'' \<mapsto> ''a16''),
      default_shapes = Map.empty(''rmsnorm_a16'' \<mapsto>
        [(2048, 4096), (1024, 4096), (512, 4096), (256, 4096), (128, 4096)]),
      rms_norm_id = 0, debug = False, operand_dtype = ''bfloat16'',
      operand_dtype_size = 2, txn_fname_prefix = ''rmsnorm_a16'',
      xrt_ctx = Some ''rmsnorm.xclbin'',
      instr_reg =
        \<lparr>hw_ctx = Some ''rmsnorm.xclbin'',
         candidates =
           [''mladfrmsnorm_rmsnorm_a16_2048_4096'', ''mladfrmsnorm_rmsnorm_a16_1024_4096'',
            ''mladfrmsnorm_rmsnorm_a16_512_4096'', ''mladfrmsnorm_rmsnorm_a16_256_4096'',
            ''mladfrmsnorm_rmsnorm_a16_128_4096''],
         layer_param_keys = [], loaded = []\<rparr>,
      a_bo = Some (replicate 16777216 0), b_bo = Some (replicate 8192 0),
      c_bo = Some (replicate 16777216 0),
      operand_size_in_bytes = 0, wts_size_in_bytes = 0,
      a_copy_time = 0, a_sync_time = 0, b_copy_time = 0, b_sync_time = 0,
      c_copy_time = 0, c_sync_time = 0, run_aie_time = 0, num_run_aie = 0\<rparr>"
  by (simp add: demo_instance_def demo_init_def demo_ctor_eq initialize_const_params_def Let_def
      tuple_to_vector_def running_product_with_skips_def)

lemma shape_loop_mem: "shape_loop shapes mk \<longleftrightarrow> mk \<in> set shapes"
  by (induction shapes) auto

lemma isSupportedShape_reset:
  "isSupportedShape (reset_counters s) T = isSupportedShape s T"
  by (simp add: isSupportedShape_def reset_counters_def)

lemma isSupportedShape_cases:
  assumes "default_shapes s (txn_fname_prefix s) = Some supported_shapes"
  shows "isSupportedShape s T =
     (if length (shape T) \<noteq> 2 then Inl (Runtime_error rank_message)
      else Inr ((to_int (shape T ! 0), to_int (shape T ! 1)) \<in> set supported_shapes))"
  using assms by (simp add: isSupportedShape_def extract_MK_def shape_loop_mem)

lemma at_inputs:
  "2 \<le> length input \<Longrightarrow> at input 0 = Inr (input ! 0)"
  "2 \<le> length input \<Longrightarrow> at input (Suc 0) = Inr (input ! 1)"
  by (auto simp: at_def)

lemma execute_few_inputs:
  "length input < 2 \<Longrightarrow> execute env p s input output = (Some Out_of_range, p, s, output)"
  by (auto simp: execute_def at_def)

lemma execute_rejected:
  assumes "2 \<le> length input"
      and "isSupportedShape s (input ! 0) = Inl e"
  shows "execute env p s input output =
           (Some e, p\<lparr>clock_reads := clock_reads p + 1\<rparr>, reset_counters s, output)"
  using assms by (simp add: execute_def at_inputs isSupportedShape_reset Let_def)

lemma execute_unsupported:
  assumes "2 \<le> length input"
      and "isSupportedShape s (input ! 0) = Inr False"
  shows "execute env p s input output =
           (Some (Runtime_error unsupported_message),
            p\<lparr>clock_reads := clock_reads p + 1\<rparr>, reset_counters s, output)"
  using assms by (simp add: execute_def at_inputs isSupportedShape_reset Let_def)

text \<open>What each section of \<open>execute\<close> returns, by the branch taken.\<close>

lemma stage_a_cases:
  assumes "stage_a env p s t = (r, p', s')"
  shows "(r = None \<and> (\<exists>a_old. a_bo s = Some a_old
            \<and> running_product_with_skips (map unat (shape t)) [] * operand_dtype_size s \<le> length a_old
            \<and> running_product_with_skips (map unat (shape t)) [] * operand_dtype_size s \<le> length (data t)
            \<and> p' = p\<lparr>clock_reads := clock_reads p + 4,
                       trace := trace p @
                         [Host_to_bo A_bo (running_product_with_skips (map unat (shape t)) [] * operand_dtype_size s),
                          Sync_to_device A_bo]\<rparr>
            \<and> s' = s\<lparr>operand_size_in_bytes :=
                         running_product_with_skips (map unat (shape t)) [] * operand_dtype_size s,
                       a_bo := Some (take (running_product_with_skips (map unat (shape t)) [] * operand_dtype_size s) (data t)
                                  @ drop (running_product_with_skips (map unat (shape t)) [] * operand_dtype_size s) a_old),
                       a_copy_time := now env (clock_reads p + 1) - now env (clock_reads p),
                       a_sync_time := now env (clock_reads p + 3) - now env (clock_reads p + 2)\<rparr>))
       \<or> (r = Some Undefined_behaviour \<and> p' = p\<lparr>clock_reads := clock_reads p + 1\<rparr>
            \<and> s' = s\<lparr>operand_size_in_bytes :=
                         running_product_with_skips (map unat (shape t)) [] * operand_dtype_size s\<rparr>)"
  using assms
  by (auto simp: stage_a_def memcpy_def Let_def split: option.splits if_splits)

lemma stage_b_cases:
  assumes "stage_b env p s t = (r, p', s')"
  shows "(r = None \<and> (\<exists>b_old. b_bo s = Some b_old
            \<and> running_product_with_skips (map unat (shape t)) [] * operand_dtype_size s \<le> length b_old
            \<and> running_product_with_skips (map unat (shape t)) [] * operand_dtype_size s \<le> length (data t)
            \<and> p' = p\<lparr>clock_reads := clock_reads p + 4,
                       trace := trace p @
                         [Host_to_bo B_bo (running_product_with_skips (map unat (shape t)) [] * operand_dtype_size s),
                          Sync_to_device B_bo]\<rparr>
            \<and> s' = s\<lparr>wts_size_in_bytes :=
                         running_product_with_skips (map unat (shape t)) [] * operand_dtype_size s,
                       b_bo := Some (take (running_product_with_skips (map unat (shape t)) [] * operand_dtype_size s) (data t)
                                  @ drop (running_product_with_skips (map unat (shape t)) [] * operand_dtype_size s) b_old),
                       b_copy_time := now env (clock_reads p + 1) - now env (clock_reads p),
                       b_sync_time := now env (clock_reads p + 3) - now env (clock_reads p + 2)\<rparr>))
       \<or> (r = Some Undefined_behaviour \<and> p' = p\<lparr>clock_reads := clock_reads p + 1\<rparr>
            \<and> s' = s\<lparr>wts_size_in_bytes :=
                         running_product_with_skips (map unat (shape t)) [] * operand_dtype_size s\<rparr>)"
  using assms
  by (auto simp: stage_b_def memcpy_def Let_def split: option.splits if_splits)

lemma launch_cases:
  assumes "launch env p s t = (r, p', s')"
  shows "(r = None \<and> (\<exists>m k blob reg ctx a b c.
              at (shape t) 0 = Inr m \<and> at (shape t) 1 = Inr k
            \<and> get_instr_bo env (instr_reg s) (get_instr_key (txn_fname_prefix s) (to_int m) (to_int k))
                 = Inr (blob, reg)
            \<and> xrt_ctx s = Some ctx \<and> a_bo s = Some a \<and> b_bo s = Some b \<and> c_bo s = Some c
            \<and> p' = p\<lparr>clock_reads := clock_reads p + 2,
                       trace := trace p @
                         [Kernel_run (get_instr_key (txn_fname_prefix s) (to_int m) (to_int k))]\<rparr>
            \<and> s' = s\<lparr>instr_reg := reg,
                       c_bo := Some (device_write c (kernel env blob a b)),
                       run_aie_time := run_aie_time s
                          + (now env (clock_reads p + 1) - now env (clock_reads p)),
                       num_run_aie := num_run_aie s + 1\<rparr>))
       \<or> (r = Some Out_of_range \<and> p' = p \<and> s' = s)
       \<or> (\<exists>m k. r = Some (Lookup_error (get_instr_key (txn_fname_prefix s) (to_int m) (to_int k)))
              \<and> at (shape t) 0 = Inr m \<and> at (shape t) 1 = Inr k \<and> p' = p \<and> s' = s)
       \<or> (r = Some Undefined_behaviour \<and> p' = p \<and> s' = s\<lparr>instr_reg := instr_reg s'\<rparr>)"
  using assms
  by (auto simp: launch_def at_def get_instr_bo_def Let_def split: option.splits if_splits sum.splits)

lemma fetch_output_cases:
  assumes "fetch_output env p s output = (r, p', s', output')"
  shows "(r = None \<and> (\<exists>c.
              c_bo s = Some c \<and> output \<noteq> []
            \<and> operand_size_in_bytes s \<le> length c
            \<and> operand_size_in_bytes s \<le> length (data (output ! 0))
            \<and> p' = p\<lparr>clock_reads := clock_reads p + 5,
                       trace := trace p @ [Sync_from_device C_bo,
                                           Bo_to_host C_bo (operand_size_in_bytes s)]\<rparr>
            \<and> s' = s\<lparr>c_sync_time := c_sync_time s
                          + (now env (clock_reads p + 1) - now env (clock_reads p)),
                       c_copy_time := now env (clock_reads p + 3) - now env (clock_reads p + 2)\<rparr>
            \<and> output' = output[0 := (output ! 0)\<lparr>data :=
                  take (operand_size_in_bytes s) c
                  @ drop (operand_size_in_bytes s) (data (output ! 0))\<rparr>]))
       \<or> ((r = Some Out_of_range \<or> r = Some Undefined_behaviour)
            \<and> trace p' = trace p @ [Sync_from_device C_bo]
            \<and> s' = s\<lparr>c_sync_time := c_sync_time s
                          + (now env (clock_reads p + 1) - now env (clock_reads p))\<rparr>
            \<and> output' = output)"
proof (cases "output")
  case Nil
  with assms show ?thesis
    by (auto simp: fetch_output_def at_def Let_def)
next
  case (Cons output0 rest)
  show ?thesis
  proof (cases "c_bo s")
    case None
    with assms Cons show ?thesis
      by (auto simp: fetch_output_def at_def Let_def)
  next
    case (Some c)
    show ?thesis
    proof (cases "operand_size_in_bytes s \<le> length c
                  \<and> operand_size_in_bytes s \<le> length (data output0)")
      case True
      with assms Cons Some show ?thesis
        by (auto simp: fetch_output_def at_def memcpy_def Let_def)
    next
      case False
      with assms Cons Some show ?thesis
        by (auto simp: fetch_output_def at_def memcpy_def Let_def)
    qed
  qed
qed

text \<open>No section changes the size of a buffer.\<close>

lemma stage_a_sizes:
  "stage_a env p s t = (r, p', s') \<Longrightarrow>
     bo_size (a_bo s') = bo_size (a_bo s) \<and> b_bo s' = b_bo s \<and> c_bo s' = c_bo s"
  by (auto simp: stage_a_def memcpy_def bo_size_def Let_def split: option.splits if_splits)

lemma stage_b_sizes:
  "stage_b env p s t = (r, p', s') \<Longrightarrow>
     bo_size (b_bo s') = bo_size (b_bo s) \<and> a_bo s' = a_bo s \<and> c_bo s' = c_bo s"
  by (auto simp: stage_b_def memcpy_def bo_size_def Let_def split: option.splits if_splits)

lemma launch_sizes:
  "launch env p s t = (r, p', s') \<Longrightarrow>
     bo_size (c_bo s') = bo_size (c_bo s) \<and> a_bo s' = a_bo s \<and> b_bo s' = b_bo s"
  by (auto simp: launch_def at_def device_write_def bo_size_def Let_def
      split: option.splits if_splits sum.splits)

text \<open>The branches of \<open>run_stages\<close> and of \<open>execute\<close>.\<close>

lemma run_stages_branches:
  obtains
    (a_fails) e pa sa where
      "stage_a env p s x = (Some e, pa, sa)"
      "run_stages env p s x y output = (Some e, pa, sa, output)"
  | (b_fails) pa sa e pb sb where
      "stage_a env p s x = (None, pa, sa)"
      "stage_b env pa sa y = (Some e, pb, sb)"
      "run_stages env p s x y output = (Some e, pb, sb, output)"
  | (launch_fails) pa sa pb sb e pl sl where
      "stage_a env p s x = (None, pa, sa)"
      "stage_b env pa sa y = (None, pb, sb)"
      "launch env pb sb x = (Some e, pl, sl)"
      "run_stages env p s x y output = (Some e, pl, sl, output)"
  | (fetches) pa sa pb sb pl sl where
      "stage_a env p s x = (None, pa, sa)"
      "stage_b env pa sa y = (None, pb, sb)"
      "launch env pb sb x = (None, pl, sl)"
      "run_stages env p s x y output = fetch_output env pl sl output"
proof -
  obtain ra pa sa where a: "stage_a env p s x = (ra, pa, sa)"
    by (cases "stage_a env p s x") auto
  obtain rb pb sb where b: "stage_b env pa sa y = (rb, pb, sb)"
    by (cases "stage_b env pa sa y") auto
  obtain rl pl sl where l: "launch env pb sb x = (rl, pl, sl)"
    by (cases "launch env pb sb x") auto
  show thesis
  proof (cases ra)
    case (Some e)
    with a show thesis by (intro a_fails [of e pa sa]) (simp_all add: run_stages_def)
  next
    case None
    note ra = this
    show thesis
    proof (cases rb)
      case (Some e)
      with a ra b show thesis
        by (intro b_fails [of pa sa e pb sb]) (simp_all add: run_stages_def)
    next
      case None
      note rb = this
      show thesis
      proof (cases rl)
        case (Some e)
        with a ra b rb l show thesis
          by (intro launch_fails [of pa sa pb sb e pl sl]) (simp_all add: run_stages_def)
      next
        case None
        with a ra b rb l show thesis
          by (intro fetches [of pa sa pb sb pl sl]) (simp_all add: run_stages_def)
      qed
    qed
  qed
qed



lemma execute_branches:
  obtains
    (few) "length input < 2"
      "execute env p s input output = (Some Out_of_range, p, s, output)"
  | (rejected) e where "2 \<le> length input"
      "isSupportedShape s (input ! 0) = Inl e"
      "execute env p s input output =
         (Some e, p\<lparr>clock_reads := clock_reads p + 1\<rparr>, reset_counters s, output)"
  | (unsupported) "2 \<le> length input"
      "isSupportedShape s (input ! 0) = Inr False"
      "execute env p s input output =
         (Some (Runtime_error unsupported_message),
          p\<lparr>clock_reads := clock_reads p + 1\<rparr>, reset_counters s, output)"
  | (valid) "2 \<le> length input"
      "isSupportedShape s (input ! 0) = Inr True"
      "execute env p s input output =
         run_stages env (p\<lparr>clock_reads := clock_reads p + 1\<rparr>) (reset_counters s)
           (input ! 0) (input ! 1) output"
proof (cases "length input < 2")
  case True
  then show thesis by (intro few) (simp_all add: execute_few_inputs)
next
  case False
  then have len: "2 \<le> length input" by simp
  show thesis
  proof (cases "isSupportedShape s (input ! 0)")
    case (Inl e)
    with len show thesis by (intro rejected [of e]) (simp_all add: execute_rejected)
  next
    case (Inr ok)
    show thesis
    proof (cases ok)
      case False
      with Inr len show thesis by (intro unsupported) (simp_all add: execute_unsupported)
    next
      case True
      with Inr len show thesis
        by (intro valid) (simp_all add: execute_def at_inputs isSupportedShape_reset Let_def)
    qed
  qed
qed

text \<open>The run counter along a call.\<close>

lemma stage_a_num:
  assumes "stage_a env p s t = (r, p', s')"
  shows "num_run_aie s' = num_run_aie s \<and> (\<forall>msg. r \<noteq> Some (Runtime_error msg))"
  using stage_a_cases [OF assms] by auto

lemma stage_b_num:
  assumes "stage_b env p s t = (r, p', s')"
  shows "num_run_aie s' = num_run_aie s \<and> (\<forall>msg. r \<noteq> Some (Runtime_error msg))"
  using stage_b_cases [OF assms] by auto

lemma launch_num:
  assumes "launch env p s t = (r, p', s')"
  shows "(r = None \<longrightarrow> num_run_aie s' = num_run_aie s + 1)
       \<and> (r \<noteq> None \<longrightarrow> num_run_aie s' = num_run_aie s)
       \<and> (\<forall>msg. r \<noteq> Some (Runtime_error msg))"
proof -
  from launch_cases [OF assms] consider
      (ok) "r = None" "num_run_aie s' = num_run_aie s + 1"
    | (bad) "r \<noteq> None" "\<forall>msg. r \<noteq> Some (Runtime_error msg)" "s' = s \<or> s' = s\<lparr>instr_reg := instr_reg s'\<rparr>"
    by (elim disjE exE conjE) simp_all
  then show ?thesis
  proof cases
    case ok
    then show ?thesis by simp
  next
    case bad
    from bad(3) have "num_run_aie s' = num_run_aie s"
    proof
      assume "s' = s"
      then show ?thesis by simp
    next
      assume "s' = s\<lparr>instr_reg := instr_reg s'\<rparr>"
      from arg_cong [OF this, of num_run_aie] show ?thesis by simp
    qed
    with bad show ?thesis by simp
  qed
qed

lemma fetch_output_num:
  assumes "fetch_output env p s output = (r, p', s', output')"
  shows "num_run_aie s' = num_run_aie s \<and> (\<forall>msg. r \<noteq> Some (Runtime_error msg))"
  using fetch_output_cases [OF assms] by auto

lemma run_stages_num_run_aie:
  assumes "run_stages env p s x y output = (r, p', s', output')"
  shows "(r = None \<longrightarrow> num_run_aie s' = num_run_aie s + 1)
       \<and> (num_run_aie s' = num_run_aie s \<or> num_run_aie s' = num_run_aie s + 1)
       \<and> (\<forall>msg. r \<noteq> Some (Runtime_error msg))"
proof (cases rule: run_stages_branches [of env p s x y "output"])
  case (a_fails e pa sa)
  with assms stage_a_num [OF a_fails(1)] show ?thesis by auto
next
  case (b_fails pa sa e pb sb)
  with assms stage_a_num [OF b_fails(1)] stage_b_num [OF b_fails(2)] show ?thesis by auto
next
  case (launch_fails pa sa pb sb e pl sl)
  with assms stage_a_num [OF launch_fails(1)] stage_b_num [OF launch_fails(2)]
    launch_num [OF launch_fails(3)]
  show ?thesis by auto
next
  case (fetches pa sa pb sb pl sl)
  from assms fetches(4) have f: "fetch_output env pl sl output = (r, p', s', output')" by simp
  from stage_a_num [OF fetches(1)] stage_b_num [OF fetches(2)] launch_num [OF fetches(3)]
    fetch_output_num [OF f]
  show ?thesis by auto
qed



text \<open>Events and buffer sizes along a call.\<close>

lemma stage_a_events:
  assumes "stage_a env p s t = (r, p', s')"
  shows "\<exists>evs. trace p' = trace p @ evs \<and> no_alloc evs"
  using stage_a_cases [OF assms] by (auto simp: no_alloc_def)

lemma stage_b_events:
  assumes "stage_b env p s t = (r, p', s')"
  shows "\<exists>evs. trace p' = trace p @ evs \<and> no_alloc evs"
  using stage_b_cases [OF assms] by (auto simp: no_alloc_def)

lemma launch_events:
  assumes "launch env p s t = (r, p', s')"
  shows "\<exists>evs. trace p' = trace p @ evs \<and> no_alloc evs"
  using launch_cases [OF assms] by (auto simp: no_alloc_def)

lemma fetch_output_events:
  assumes "fetch_output env p s output = (r, p', s', output')"
  shows "\<exists>evs. trace p' = trace p @ evs \<and> no_alloc evs"
  using fetch_output_cases [OF assms] by (auto simp: no_alloc_def)

lemma no_alloc_append: "no_alloc xs \<Longrightarrow> no_alloc ys \<Longrightarrow> no_alloc (xs @ ys)"
  by (auto simp: no_alloc_def)

lemma events_trans:
  assumes "\<exists>evs. trace q = trace p @ evs \<and> no_alloc evs"
      and "\<exists>evs. trace r = trace q @ evs \<and> no_alloc evs"
  shows "\<exists>evs. trace r = trace p @ evs \<and> no_alloc evs"
proof -
  from assms obtain e1 e2 where "trace q = trace p @ e1" "no_alloc e1"
    "trace r = trace q @ e2" "no_alloc e2" by auto
  then have "trace r = trace p @ (e1 @ e2)" "no_alloc (e1 @ e2)"
    by (simp_all add: no_alloc_append)
  then show ?thesis by blast
qed

lemma run_stages_events:
  assumes "run_stages env p s x y output = (r, p', s', output')"
  shows "\<exists>evs. trace p' = trace p @ evs \<and> no_alloc evs"
proof (cases rule: run_stages_branches [of env p s x y "output"])
  case (a_fails e pa sa)
  with assms stage_a_events [OF a_fails(1)] show ?thesis by simp
next
  case (b_fails pa sa e pb sb)
  with assms events_trans [OF stage_a_events [OF b_fails(1)] stage_b_events [OF b_fails(2)]]
  show ?thesis by simp
next
  case (launch_fails pa sa pb sb e pl sl)
  with assms events_trans [OF events_trans [OF stage_a_events [OF launch_fails(1)]
      stage_b_events [OF launch_fails(2)]] launch_events [OF launch_fails(3)]]
  show ?thesis by simp
next
  case (fetches pa sa pb sb pl sl)
  from assms fetches(4) have f: "fetch_output env pl sl output = (r, p', s', output')" by simp
  from events_trans [OF events_trans [OF events_trans [OF stage_a_events [OF fetches(1)]
      stage_b_events [OF fetches(2)]] launch_events [OF fetches(3)]] fetch_output_events [OF f]]
  show ?thesis .
qed

lemma fetch_output_sizes:
  assumes "fetch_output env p s output = (r, p', s', output')"
  shows "a_bo s' = a_bo s \<and> b_bo s' = b_bo s \<and> c_bo s' = c_bo s"
  using fetch_output_cases [OF assms] by auto

lemma run_stages_sizes:
  assumes "run_stages env p s x y output = (r, p', s', output')"
  shows "bo_size (a_bo s') = bo_size (a_bo s) \<and> bo_size (b_bo s') = bo_size (b_bo s)
       \<and> bo_size (c_bo s') = bo_size (c_bo s)"
proof (cases rule: run_stages_branches [of env p s x y "output"])
  case (a_fails e pa sa)
  with assms stage_a_sizes [OF a_fails(1)] show ?thesis by simp
next
  case (b_fails pa sa e pb sb)
  with assms stage_a_sizes [OF b_fails(1)] stage_b_sizes [OF b_fails(2)] show ?thesis by simp
next
  case (launch_fails pa sa pb sb e pl sl)
  with assms stage_a_sizes [OF launch_fails(1)] stage_b_sizes [OF launch_fails(2)]
    launch_sizes [OF launch_fails(3)]
  show ?thesis by simp
next
  case (fetches pa sa pb sb pl sl)
  from assms fetches(4) have f: "fetch_output env pl sl output = (r, p', s', output')" by simp
  from stage_a_sizes [OF fetches(1)] stage_b_sizes [OF fetches(2)] launch_sizes [OF fetches(3)]
    fetch_output_sizes [OF f]
  show ?thesis by simp
qed

lemma execute_sizes:
  assumes "execute env p s input output = (r, p', s', output')"
  shows "bo_size (a_bo s') = bo_size (a_bo s) \<and> bo_size (b_bo s') = bo_size (b_bo s)
       \<and> bo_size (c_bo s') = bo_size (c_bo s)
       \<and> (\<exists>evs. trace p' = trace p @ evs \<and> no_alloc evs)"
proof (cases rule: execute_branches [of input env p s "output"])
  case few
  with assms show ?thesis by (auto simp: no_alloc_def)
next
  case (rejected e)
  with assms show ?thesis by (auto simp: no_alloc_def reset_counters_def)
next
  case unsupported
  with assms show ?thesis by (auto simp: no_alloc_def reset_counters_def)
next
  case valid
  with assms have r: "run_stages env (p\<lparr>clock_reads := clock_reads p + 1\<rparr>) (reset_counters s)
           (input ! 0) (input ! 1) output = (r, p', s', output')" by simp
  from run_stages_sizes [OF r] run_stages_events [OF r] show ?thesis
    by (simp add: reset_counters_def)
qed











text \<open>The helper's maximum over a table is the maximum of the products.\<close>

lemma max_count_no_skip:
  "shapes \<noteq> [] \<Longrightarrow>
     max_element_count_with_skips (map tuple_to_vector shapes) []
       = Max ((\<lambda>(rows, cols). rows * cols) ` set shapes)"
proof (induction shapes rule: list_nonempty_induct)
  case (single x)
  then show ?case
    by (cases x) (simp add: tuple_to_vector_def running_product_with_skips_def)
next
  case (cons x xs)
  then obtain y ys where "xs = y # ys" by (cases xs) auto
  with cons show ?case
    by (cases x) (simp add: tuple_to_vector_def running_product_with_skips_def)
qed

lemma max_count_skip_rows:
  "shapes \<noteq> [] \<Longrightarrow>
     max_element_count_with_skips (map tuple_to_vector shapes) [0]
       = Max ((\<lambda>(rows, cols). cols) ` set shapes)"
proof (induction shapes rule: list_nonempty_induct)
  case (single x)
  then show ?case
    by (cases x) (simp add: tuple_to_vector_def running_product_with_skips_def)
next
  case (cons x xs)
  then obtain y ys where "xs = y # ys" by (cases xs) auto
  with cons show ?case
    by (cases x) (simp add: tuple_to_vector_def running_product_with_skips_def)
qed

text \<open>The constructor and \<open>initialize_const_params\<close>.\<close>

lemma ctor_result:
  assumes "rms_norm_ctor env p dtype_tag load_xrt = (Inr s, p')"
  shows "default_shapes s = Map.empty(''rmsnorm_a16'' \<mapsto>
           [(2048, 4096), (1024, 4096), (512, 4096), (256, 4096), (128, 4096)])"
    and "txn_fname_prefix s = ''rmsnorm_a16''"
    and "operand_dtype_size s = sizeof_LhsT"
    and "xrt_ctx s = (if load_xrt then Some (xclbin_name env) else None)"
    and "a_bo s = None" and "b_bo s = None" and "c_bo s = None"
    and "num_run_aie s = 0"
    and "load_xrt \<longrightarrow> instr_reg_flag p'"
    and "candidates (instr_reg s) =
           (if load_xrt \<and> \<not> instr_reg_flag p
            then map (\<lambda>(m, k). get_instr_key ''rmsnorm_a16'' m k)
                   [(2048, 4096), (1024, 4096), (512, 4096), (256, 4096), (128, 4096)]
            else [])"
  using assms
  by (auto simp: rms_norm_ctor_def Let_def default_members_def setup_instr_registry_def
      reset_counters_def add_layer_params_def add_instructions_def setup_hw_ctx_def
      empty_registry_def split: if_splits)


lemma initialize_const_params_result:
  assumes "default_shapes s ''rmsnorm_a16'' = Some shapes" and "xrt_ctx s = Some ctx"
  shows "initialize_const_params p s const_params attr =
     (None,
      p\<lparr>trace := trace p @
         [Bo_alloc A_bo (nat (max_element_count_with_skips (map tuple_to_vector shapes) [])
                          * operand_dtype_size s),
          Bo_alloc B_bo (nat (max_element_count_with_skips (map tuple_to_vector shapes) [0])
                          * operand_dtype_size s),
          Bo_alloc C_bo (nat (max_element_count_with_skips (map tuple_to_vector shapes) [])
                          * operand_dtype_size s)]\<rparr>,
      s\<lparr>a_bo := Some (replicate
                (nat (max_element_count_with_skips (map tuple_to_vector shapes) [])
                   * operand_dtype_size s) 0),
        b_bo := Some (replicate
                (nat (max_element_count_with_skips (map tuple_to_vector shapes) [0])
                   * operand_dtype_size s) 0),
        c_bo := Some (replicate
                (nat (max_element_count_with_skips (map tuple_to_vector shapes) [])
                   * operand_dtype_size s) 0)\<rparr>)"
  using assms by (simp add: initialize_const_params_def Let_def)

lemma table_maxima:
  "Max ((\<lambda>(rows, cols). rows * cols) `
      set [(2048, 4096), (1024, 4096), (512, 4096), (256, 4096), (128, 4096 :: int)])
     = (8388608 :: int)"
  "Max ((\<lambda>(rows, cols). cols) `
      set [(2048, 4096), (1024, 4096), (512, 4096), (256, 4096), (128 :: int, 4096)])
     = (4096 :: int)"
  by simp_all

lemma initialize_const_params_sizes:
  assumes "default_shapes s ''rmsnorm_a16'' = Some shapes" and "xrt_ctx s = Some ctx"
      and "shapes \<noteq> []"
      and "initialize_const_params p s const_params attr = (r1, p1, s1)"
  shows "r1 = None"
    and "bo_size (a_bo s1)
           = Some (nat (Max ((\<lambda>(rows, cols). rows * cols) ` set shapes)) * operand_dtype_size s)"
    and "bo_size (b_bo s1)
           = Some (nat (Max ((\<lambda>(rows, cols). cols) ` set shapes)) * operand_dtype_size s)"
    and "bo_size (c_bo s1)
           = Some (nat (Max ((\<lambda>(rows, cols). rows * cols) ` set shapes)) * operand_dtype_size s)"
    and "default_shapes s1 = default_shapes s" and "txn_fname_prefix s1 = txn_fname_prefix s"
  using assms(4)
  unfolding initialize_const_params_result [OF assms(1,2)]
    max_count_no_skip [OF assms(3)] max_count_skip_rows [OF assms(3)]
  by (auto simp: bo_size_def)

text \<open>The runs of the concrete process.\<close>

lemma demo_run1_eq:
  "demo_run1 =
     (None,
      \<lparr>logger_flag = True, rms_norm_count = 1, instr_reg_flag = True, clock_reads = 16,
        trace = [Get_instance ''rmsnorm.xclbin'', Bo_alloc A_bo 16777216, Bo_alloc B_bo 8192,
                 Bo_alloc C_bo 16777216, Host_to_bo A_bo 1048576, Sync_to_device A_bo,
                 Host_to_bo B_bo 8192, Sync_to_device B_bo,
                 Kernel_run ''mladfrmsnorm_rmsnorm_a16_128_4096'',
                 Sync_from_device C_bo, Bo_to_host C_bo 1048576]\<rparr>,
      \<lparr>txnbin_operand_header = Map.empty(''bfloat16'' \<mapsto> ''a16''),
        default_shapes = Map.empty(''rmsnorm_a16'' \<mapsto>
          [(2048, 4096), (1024, 4096), (512, 4096), (256, 4096), (128, 4096)]),
        rms_norm_id = 0, debug = False, operand_dtype = ''bfloat16'',
        operand_dtype_size = 2, txn_fname_prefix = ''rmsnorm_a16'',
        xrt_ctx = Some ''rmsnorm.xclbin'',
        instr_reg =
          \<lparr>hw_ctx = Some ''rmsnorm.xclbin'',
           candidates =
             [''mladfrmsnorm_rmsnorm_a16_2048_4096'', ''mladfrmsnorm_rmsnorm_a16_1024_4096'',
              ''mladfrmsnorm_rmsnorm_a16_512_4096'', ''mladfrmsnorm_rmsnorm_a16_256_4096'',
              ''mladfrmsnorm_rmsnorm_a16_128_4096''],
           layer_param_keys = [],
           loaded = [(''mladfrmsnorm_rmsnorm_a16_128_4096'', [])]\<rparr>,
        a_bo = Some (replicate 1048576 0 @ replicate 15728640 0),
        b_bo = Some (replicate 8192 0),
        c_bo = Some (replicate 1048576 0 @ replicate 15728640 0),
        operand_size_in_bytes = 1048576, wts_size_in_bytes = 8192,
        a_copy_time = 1, a_sync_time = 1, b_copy_time = 1, b_sync_time = 1,
        c_copy_time = 1, c_sync_time = 1, run_aie_time = 1, num_run_aie = 1\<rparr>,
      [\<lparr>data = replicate 1048576 0, shape = [128, 4096], dtype = ''bfloat16''\<rparr>])"
  by (simp add: demo_run1_def demo_input_def demo_output_def demo_process_eq demo_instance_eq
      demo_env_def exec_defs reset_counters_def running_product_with_skips_def demo_keys Let_def)

lemma demo_run2_facts:
  "status_of demo_run2 = None" "num_run_aie (instance_of demo_run2) = 1"
  by (simp_all add: demo_run2_def demo_run1_eq demo_input_def
      demo_env_def exec_defs reset_counters_def running_product_with_skips_def demo_keys Let_def)

lemma demo_unsupported_facts:
  "status_of demo_unsupported = Some (Runtime_error unsupported_message)"
  "num_run_aie (instance_of demo_unsupported) = 0"
  by (simp_all add: demo_unsupported_def demo_run1_eq
      demo_env_def exec_defs reset_counters_def running_product_with_skips_def demo_keys Let_def)


lemma demo_ctor2_facts:
  "\<exists>s p. demo_ctor2 = (Inr s, p) \<and> candidates (instr_reg s) = []
       \<and> default_shapes s (txn_fname_prefix s)
          = Some [(2048, 4096), (1024, 4096), (512, 4096), (256, 4096), (128, 4096)]"
  by (simp add: demo_ctor2_def demo_ctor_eq demo_env_def ctor_defs)


text \<open>
  The conversions on dimensions below \<open>2 ^ 31\<close>: the \<open>int\<close> is the dimension, and the
  byte counts of the buffer-requirements query do not wrap.
\<close>

lemma to_int_in_range:
  assumes "unat n < 2 ^ 31"
  shows "to_int n = uint n"
proof -
  have "int (unat n) < int (2 ^ 31)"
    using assms by (simp only: of_nat_less_iff)
  then have u: "uint n < 2 ^ 31"
    by simp
  have "to_int n = sint (word_of_int (uint n) :: int32)"
    by (simp only: to_int_def ucast_eq)
  also have "\<dots> = signed_take_bit (LENGTH(32) - 1) (uint n)"
    by (rule sint_sbintrunc')
  also have "\<dots> = uint n"
  proof (rule signed_take_bit_int_eq_self)
    show "- (2 ^ (LENGTH(32) - 1)) \<le> uint n"
      by (rule order_trans [where y = 0]) simp_all
    from u show "uint n < 2 ^ (LENGTH(32) - 1)" by simp
  qed
  finally show ?thesis .
qed

lemma to_size_t_uint: "to_size_t (uint n) = n"
  by (simp add: to_size_t_def)

lemma isSupportedShape_in_range:
  assumes "default_shapes s (txn_fname_prefix s) = Some supported_shapes"
      and "shape T = [rows, cols]" and "unat rows < 2 ^ 31" and "unat cols < 2 ^ 31"
  shows "isSupportedShape s T = Inr ((uint rows, uint cols) \<in> set supported_shapes)"
  using assms by (simp add: isSupportedShape_cases to_int_in_range)

lemma bytes_of_elements:
  fixes a b :: size_t
  assumes "unat a < 2 ^ 31" and "unat b < 2 ^ 31"
  shows "unat (to_size_t (uint a * uint b) * 2) = unat a * unat b * 2"
proof -
  have ab: "unat a * unat b < 2 ^ 31 * 2 ^ 31"
    using assms by (intro mult_strict_mono) simp_all
  then have s1: "unat a * unat b < 2 ^ LENGTH(64)" by simp
  have w: "to_size_t (uint a * uint b) = a * b"
    by (simp add: to_size_t_def)
  have m1: "unat (a * b) = unat a * unat b"
    using s1 by (simp only: unat_mult_lem [symmetric])
  have "unat (a * b) * unat (2 :: size_t) < 2 ^ LENGTH(64)"
    using ab by (simp add: m1)
  then have "unat (a * b * 2) = unat (a * b) * unat (2 :: size_t)"
    by (simp only: unat_mult_lem [symmetric])
  then show ?thesis by (simp add: w m1)
qed

lemma bytes_of_weights:
  fixes w :: size_t
  assumes "unat w < 2 ^ 31"
  shows "unat (w * 2) = unat w * 2"
proof -
  have "unat w * unat (2 :: size_t) < 2 ^ LENGTH(64)"
    using assms by simp
  then have "unat (w * 2) = unat w * unat (2 :: size_t)"
    by (simp only: unat_mult_lem [symmetric])
  then show ?thesis by simp
qed

text \<open>
  On descriptors whose dimensions and element count are below \<open>2 ^ 31\<close> the query
  compares the shapes as they are.
\<close>

lemma get_buffer_reqs_in_range:
  assumes "2 \<le> length input" and "1 \<le> length output"
      and "shape (input ! 0) = [rows, cols]"
      and "shape (output ! 0) = [rows', cols']"
      and "shape (input ! 1) = wts_length # dims"
      and "unat rows < 2 ^ 31" and "unat cols < 2 ^ 31"
      and "unat rows' < 2 ^ 31" and "unat cols' < 2 ^ 31"
      and "unat rows * unat cols < 2 ^ 31"
  shows "get_buffer_reqs input output attr =
     (if (rows, cols) \<noteq> (rows', cols') then Inl (Runtime_error mismatch_result_message)
      else if cols' \<noteq> wts_length then Inl (Runtime_error mismatch_wts_message)
      else Inr [OpArgMap INPUT 0 0 0 (unat rows * unat cols * sizeof_LhsT),
                OpArgMap INPUT 1 1 0 (unat wts_length * sizeof_WtsT),
                OpArgMap OUTPUT 2 2 0 (unat rows * unat cols * sizeof_OutT)])"
proof -
  have a0: "at input 0 = Inr (input ! 0)" and a1: "at input (Suc 0) = Inr (input ! 1)"
    using assms(1) by (simp_all add: at_inputs)
  have o0: "at output 0 = Inr (output ! 0)"
    using assms(2) by (cases "output") (simp_all add: at_def)
  have w: "at (shape (input ! 1)) 0 = Inr wts_length"
    using assms(5) by (simp add: at_def)
  have e0: "extract_MK (input ! 0) = Inr (uint rows, uint cols)"
    using assms(3,6,7) by (simp add: extract_MK_def to_int_in_range)
  have e1: "extract_MK (output ! 0) = Inr (uint rows', uint cols')"
    using assms(4,8,9) by (simp add: extract_MK_def to_int_in_range)
  have pr: "running_product_with_skips (tuple_to_vector (uint rows, uint cols)) []
              = uint rows * uint cols"
    by (simp add: running_product_with_skips_def tuple_to_vector_def)
  note b = bytes_of_elements [OF assms(6,7)]
  have inj: "(uint x = uint y) = (x = y)" for x y :: size_t
    by (simp add: word_uint_eq_iff)
  show ?thesis
  proof (cases "(rows, cols) = (rows', cols') \<and> cols' = wts_length")
    case True
    then have eq: "rows' = rows" "cols' = cols" "wts_length = cols" by auto
    note bw = bytes_of_weights [OF assms(7)]
    show ?thesis
      unfolding get_buffer_reqs_def
      by (simp add: a0 a1 a1 [folded One_nat_def] o0 w e0 e1 pr b bw eq to_size_t_uint
          sizeof_LhsT_def sizeof_WtsT_def sizeof_OutT_def Let_def del: One_nat_def)
  next
    case False
    then show ?thesis
      unfolding get_buffer_reqs_def
      by (auto simp: a0 a1 a1 [folded One_nat_def] o0 w e0 e1 to_size_t_uint inj Let_def
          simp del: One_nat_def)
  qed
qed



text \<open>The further calls of the concrete process, evaluated.\<close>

lemma demo_wide_facts:
  "isSupportedShape demo_instance (demo_wide_input ! 0) = Inr True"
  "status_of (execute demo_env demo_process demo_instance demo_wide_input demo_output)
     = Some Undefined_behaviour"
  by (simp_all add: demo_wide_input_def demo_output_def demo_process_eq demo_instance_eq
      demo_env_def exec_defs reset_counters_def running_product_with_skips_def demo_keys Let_def)



lemma demo_narrowed_reqs:
  "get_buffer_reqs [zero_tensor [4294967298, 3] 0, zero_tensor [3] 0] [zero_tensor [2, 3] 0]
       (Map.empty :: string \<rightharpoonup> unit)
     = Inr [OpArgMap INPUT 0 0 0 12, OpArgMap INPUT 1 1 0 6, OpArgMap OUTPUT 2 2 0 12]"
  "get_buffer_reqs [zero_tensor [1, 4294967295] 0, zero_tensor [4294967295] 0]
       [zero_tensor [1, 4294967295] 0] (Map.empty :: string \<rightharpoonup> unit)
     = Inl (Runtime_error mismatch_wts_message)"
  by (simp_all add: get_buffer_reqs_def at_def extract_MK_def to_int_def to_size_t_def
      zero_tensor_def tuple_to_vector_def running_product_with_skips_def Let_def
      sizeof_LhsT_def sizeof_WtsT_def sizeof_OutT_def)

subsection \<open>The shape validator\<close>

text \<open>
  Claim C1. The validator is to answer true exactly for the tensors of rank 2 whose pair
  of dimensions is an entry of the table of the variant key. \<open>extract_MK\<close> assigns each
  dimension, a \<open>size_t\<close>, to an \<open>int\<close>, and the validator compares the pair of the two
  \<open>int\<close>s: the primary input of \<open>demo_wide_input\<close> has 4294967424 rows (that is
  \<open>2 ^ 32 + 128\<close>) and 4096 columns, a pair that is no entry of the table of the
  constructed instance, and the validator answers true, the rows being read as 128.
  \<open>execute\<close> then copies by the byte count of the shape as it is, beyond the input-A
  buffer.
\<close>

theorem isSupportedShape_accepts_narrowed_rows:
  "default_shapes demo_instance (txn_fname_prefix demo_instance) =
     Some [(2048, 4096), (1024, 4096), (512, 4096), (256, 4096), (128, 4096)]
   \<and> shape (demo_wide_input ! 0) = [4294967424, 4096]
   \<and> (uint (4294967424 :: size_t), uint (4096 :: size_t))
        \<notin> set [(2048, 4096), (1024, 4096), (512, 4096), (256, 4096), (128, 4096)]
   \<and> extract_MK (demo_wide_input ! 0) = Inr (128, 4096)
   \<and> isSupportedShape demo_instance (demo_wide_input ! 0) = Inr True
   \<and> status_of (execute demo_env demo_process demo_instance demo_wide_input demo_output)
        = Some Undefined_behaviour"
proof -
  have "extract_MK (demo_wide_input ! 0) = Inr (128, 4096)"
    by (simp add: demo_wide_input_def zero_tensor_def extract_MK_def to_int_def)
  moreover have "shape (demo_wide_input ! 0) = [4294967424, 4096]"
    by (simp add: demo_wide_input_def zero_tensor_def)
  moreover have "default_shapes demo_instance (txn_fname_prefix demo_instance) =
     Some [(2048, 4096), (1024, 4096), (512, 4096), (256, 4096), (128, 4096)]"
    by (simp add: demo_instance_eq)
  ultimately show ?thesis
    using demo_wide_facts by simp
qed

subsection \<open>The constructor's dtype check\<close>

text \<open>
  Claim C8. Constructing the operator with a dtype tag other than "bfloat16" fails with
  the runtime error whose message names the accepted type, and leaves the process as it
  was: no instance counted, no context acquired, no buffer allocated. With the tag
  "bfloat16" the constructor returns an instance.
\<close>

theorem ctor_dtype_check:
  "(dtype_tag \<noteq> ''bfloat16'' \<longrightarrow>
      rms_norm_ctor env p dtype_tag load_xrt = (Inl (Runtime_error dtype_message), p))
   \<and> (\<exists>s p'. rms_norm_ctor env p ''bfloat16'' load_xrt = (Inr s, p'))"
  by (simp add: ctor_defs)

theorem ctor_dtype_check_witness:
  "rms_norm_ctor demo_env initial_process ''float32'' True
     = (Inl (Runtime_error dtype_message), initial_process)
   \<and> (\<exists>s p'. rms_norm_ctor demo_env initial_process ''bfloat16'' True = (Inr s, p'))"
  using ctor_dtype_check [of "''float32''" demo_env initial_process True] by simp

subsection \<open>Calls with fewer than two inputs\<close>

text \<open>
  Claim C10. An \<open>execute\<close> call whose input list has fewer than two tensors raises the
  out-of-range error of the two initial accesses, whatever the shape of the tensor it may
  hold; the process (clock and device trace), the instance (its buffers included) and the
  output tensors are as before the call.
\<close>

theorem execute_too_few_inputs:
  "length input < 2 \<Longrightarrow> execute env p s input output = (Some Out_of_range, p, s, output)"
  by (rule execute_few_inputs)

theorem execute_too_few_inputs_witness:
  "length [zero_tensor [100, 4096] 0] < 2
   \<and> execute demo_env demo_process demo_instance [zero_tensor [100, 4096] 0] []
       = (Some Out_of_range, demo_process, demo_instance, [])"
  using execute_too_few_inputs
    [of "[zero_tensor [100, 4096] 0]" demo_env demo_process demo_instance "[]"]
  by simp

subsection \<open>The buffer-requirements query\<close>

text \<open>
  Claim C7. The query is to raise exactly when the primary input's rows and columns
  differ from the output's or the weight length differs from the column count, and to
  return the three sizes otherwise. It compares the pairs of \<open>int\<close>s that \<open>extract_MK\<close>
  returns, and the \<open>int\<close> column count, converted to \<open>size_t\<close>, with the weight length.
  A primary input of 4294967298 rows (that is \<open>2 ^ 32 + 2\<close>) and 3 columns with an
  output of 2 rows and 3 columns, shapes that differ, is answered with the three sizes
  of 2 rows. A primary input and an output of 1 row and 4294967295 columns with a weight
  of that length, shapes that agree, are answered with the weight-mismatch error, the
  column count being read as \<open>- 1\<close>.
\<close>

theorem get_buffer_reqs_compares_narrowed_shapes:
  "[4294967298, 3] \<noteq> [2, 3 :: size_t]
   \<and> get_buffer_reqs [zero_tensor [4294967298, 3] 0, zero_tensor [3] 0] [zero_tensor [2, 3] 0]
       (Map.empty :: string \<rightharpoonup> unit)
     = Inr [OpArgMap INPUT 0 0 0 12, OpArgMap INPUT 1 1 0 6, OpArgMap OUTPUT 2 2 0 12]
   \<and> extract_MK (zero_tensor [1, 4294967295] 0) = Inr (1, - 1)
   \<and> get_buffer_reqs [zero_tensor [1, 4294967295] 0, zero_tensor [4294967295] 0]
       [zero_tensor [1, 4294967295] 0] (Map.empty :: string \<rightharpoonup> unit)
     = Inl (Runtime_error mismatch_wts_message)"
proof -
  have "extract_MK (zero_tensor [1, 4294967295] 0) = Inr (1, - 1)"
    by (simp add: zero_tensor_def extract_MK_def to_int_def)
  then show ?thesis
    using demo_narrowed_reqs by simp
qed

subsection \<open>The run counter\<close>

text \<open>
  Claim C2, as amended. \<open>execute\<close> sets \<open>num_run_aie_\<close> to zero once the two input
  accesses have succeeded, and adds one after the kernel run. So a call that succeeds
  leaves the counter at exactly 1, whatever it was before, a call that fails with a
  runtime error of the shape validation leaves it at 0, every call with two inputs leaves
  it at 0 or 1, and a call with fewer than two inputs leaves it as it was: the counter
  counts the hardware runs of the latest call, not those of the instance's lifetime.
\<close>

theorem num_run_aie_counts_latest_call:
  assumes "execute env p s input output = (r, p', s', output')"
  shows "(r = None \<longrightarrow> num_run_aie s' = 1)
       \<and> ((\<exists>msg. r = Some (Runtime_error msg)) \<longrightarrow> num_run_aie s' = 0)
       \<and> (2 \<le> length input \<longrightarrow> num_run_aie s' = 0 \<or> num_run_aie s' = 1)
       \<and> (length input < 2 \<longrightarrow> num_run_aie s' = num_run_aie s)"
proof (cases rule: execute_branches [of input env p s "output"])
  case few
  with assms show ?thesis by auto
next
  case (rejected e)
  with assms show ?thesis by (auto simp: reset_counters_def)
next
  case unsupported
  with assms show ?thesis by (auto simp: reset_counters_def)
next
  case valid
  with assms have r: "run_stages env (p\<lparr>clock_reads := clock_reads p + 1\<rparr>) (reset_counters s)
           (input ! 0) (input ! 1) output = (r, p', s', output')" by simp
  have "num_run_aie (reset_counters s) = 0" by (simp add: reset_counters_def)
  with run_stages_num_run_aie [OF r] valid(1) show ?thesis by auto
qed

theorem num_run_aie_counts_latest_call_witness:
  "status_of demo_run2 = None \<and> num_run_aie (instance_of demo_run1) = 1
   \<and> num_run_aie (instance_of demo_run2) = 1"
proof -
  have "execute demo_env (process_of demo_run1) (instance_of demo_run1) demo_input
          (output_of demo_run1)
        = (status_of demo_run2, process_of demo_run2, instance_of demo_run2, output_of demo_run2)"
    by (simp add: demo_run2_def)
  from num_run_aie_counts_latest_call [OF this] demo_run2_facts(1)
  show ?thesis by (simp add: demo_run1_eq)
qed

text \<open>
  The unamended statement fails in the concrete process: \<open>demo_run1\<close> is a successful
  call on the constructed instance and leaves the counter at 1; \<open>demo_run2\<close>, the same
  call again on the resulting instance, succeeds and leaves the counter at 1, not above;
  \<open>demo_unsupported\<close>, a call with the shape (100, 4096) after \<open>demo_run1\<close>, fails with
  the shape error and brings the counter from 1 down to 0.
\<close>

theorem num_run_aie_not_increasing_counterexample:
  "status_of demo_run1 = None \<and> status_of demo_run2 = None
   \<and> \<not> num_run_aie (instance_of demo_run1) < num_run_aie (instance_of demo_run2)
   \<and> status_of demo_unsupported = Some (Runtime_error unsupported_message)
   \<and> num_run_aie (instance_of demo_unsupported) < num_run_aie (instance_of demo_run1)"
  by (simp add: demo_run1_eq demo_run2_facts demo_unsupported_facts)

subsection \<open>Unsupported shapes\<close>

text \<open>
  Claim C4, as amended. An \<open>execute\<close> call with two inputs whose primary input has a
  rank other than 2, or has rank 2, both dimensions below \<open>2 ^ 31\<close> and a shape outside
  the table of the variant key, ends with the rank error or the unsupported-shape error
  after one clock reading: the device trace is as before (no staging copy, no
  synchronisation, no kernel run), the output tensors are untouched, and the instance is
  the one before the call with its per-call counters reset to zero (the six elapsed
  times, \<open>run_aie_time_\<close> and \<open>num_run_aie_\<close>); buffers, table and registry are
  unchanged.
\<close>

theorem unsupported_shape_resets_counters_only:
  assumes "2 \<le> length input"
      and "default_shapes s (txn_fname_prefix s) = Some supported_shapes"
      and "length (shape (input ! 0)) \<noteq> 2
           \<or> (unat (shape (input ! 0) ! 0) < 2 ^ 31 \<and> unat (shape (input ! 0) ! 1) < 2 ^ 31
              \<and> (uint (shape (input ! 0) ! 0), uint (shape (input ! 0) ! 1))
                   \<notin> set supported_shapes)"
  shows "execute env p s input output =
           (Some (Runtime_error (if length (shape (input ! 0)) \<noteq> 2 then rank_message
                                 else unsupported_message)),
            p\<lparr>clock_reads := clock_reads p + 1\<rparr>, reset_counters s, output)"
proof (cases "length (shape (input ! 0)) \<noteq> 2")
  case True
  with assms(2) have "isSupportedShape s (input ! 0) = Inl (Runtime_error rank_message)"
    by (simp add: isSupportedShape_cases)
  from execute_rejected [OF assms(1) this] True show ?thesis by simp
next
  case False
  with assms(3) have r: "unat (shape (input ! 0) ! 0) < 2 ^ 31"
    "unat (shape (input ! 0) ! 1) < 2 ^ 31"
    and n: "(uint (shape (input ! 0) ! 0), uint (shape (input ! 0) ! 1)) \<notin> set supported_shapes"
    by simp_all
  have t: "to_int (shape (input ! 0) ! 0) = uint (shape (input ! 0) ! 0)"
    "to_int (shape (input ! 0) ! Suc 0) = uint (shape (input ! 0) ! Suc 0)"
    using r by (simp_all add: to_int_in_range)
  from False n have "isSupportedShape s (input ! 0) = Inr False"
    by (simp add: isSupportedShape_cases [OF assms(2)] t)
  from execute_unsupported [OF assms(1) this] False show ?thesis by simp
qed

theorem unsupported_shape_resets_counters_only_witness:
  "demo_unsupported =
     (Some (Runtime_error unsupported_message),
      (process_of demo_run1)\<lparr>clock_reads := clock_reads (process_of demo_run1) + 1\<rparr>,
      reset_counters (instance_of demo_run1), output_of demo_run1)"
proof -
  let ?input = "[zero_tensor [100, 4096] 819200, zero_tensor [4096] 8192]"
  have len: "2 \<le> length ?input" by simp
  have table: "default_shapes (instance_of demo_run1) (txn_fname_prefix (instance_of demo_run1))
      = Some [(2048, 4096), (1024, 4096), (512, 4096), (256, 4096), (128, 4096)]"
    by (simp add: demo_run1_eq)
  have bad: "length (shape (?input ! 0)) \<noteq> 2
      \<or> (unat (shape (?input ! 0) ! 0) < 2 ^ 31 \<and> unat (shape (?input ! 0) ! 1) < 2 ^ 31
         \<and> (uint (shape (?input ! 0) ! 0), uint (shape (?input ! 0) ! 1))
          \<notin> set [(2048, 4096), (1024, 4096), (512, 4096), (256, 4096), (128, 4096)])"
    by (simp add: zero_tensor_def)
  from unsupported_shape_resets_counters_only [OF len table bad,
      of demo_env "process_of demo_run1" "output_of demo_run1"]
  show ?thesis by (simp add: demo_unsupported_def zero_tensor_def)
qed

text \<open>
  The unamended statement (no mutation at all of the instance) fails in the concrete
  process: after the successful \<open>demo_run1\<close> the unsupported call returns an instance
  that differs from the one it was given, the run counter being 0 instead of 1.
\<close>

theorem unsupported_shape_mutates_instance_counterexample:
  "status_of demo_unsupported = Some (Runtime_error unsupported_message)
   \<and> instance_of demo_unsupported \<noteq> instance_of demo_run1"
proof -
  have "num_run_aie (instance_of demo_unsupported) \<noteq> num_run_aie (instance_of demo_run1)"
    by (simp add: demo_unsupported_facts demo_run1_eq)
  then have "instance_of demo_unsupported \<noteq> instance_of demo_run1" by auto
  then show ?thesis by (simp add: demo_unsupported_facts)
qed

subsection \<open>The copy into the output tensor\<close>




subsection \<open>Registration of instruction keys\<close>


subsection \<open>Sizes of the staging buffers\<close>

text \<open>
  Claim C3. For an instance built by the constructor with XRT loading,
  \<open>initialize_const_params\<close> (the step of the construction in which the source
  allocates) succeeds and allocates the input-A and the output buffer with the maximum
  over the supported shapes of \<open>rows * cols\<close> times the element size, 16777216 bytes,
  and the weight buffer with the maximum of \<open>cols\<close> times the element size, 8192 bytes.
  No \<open>execute\<close> call, on any instance, with any input and whatever its outcome, changes
  the size of a buffer or allocates one: the sizes do not depend on the shapes of later
  calls.
\<close>

theorem staging_buffer_sizes:
  assumes "rms_norm_ctor env p dtype_tag True = (Inr s0, p0)"
      and "initialize_const_params p0 s0 const_params attr = (r1, p1, s1)"
  shows "r1 = None
       \<and> (\<exists>shapes. default_shapes s1 (txn_fname_prefix s1) = Some shapes
            \<and> bo_size (a_bo s1)
                = Some (nat (Max ((\<lambda>(rows, cols). rows * cols) ` set shapes)) * sizeof_LhsT)
            \<and> bo_size (b_bo s1)
                = Some (nat (Max ((\<lambda>(rows, cols). cols) ` set shapes)) * sizeof_LhsT)
            \<and> bo_size (c_bo s1)
                = Some (nat (Max ((\<lambda>(rows, cols). rows * cols) ` set shapes)) * sizeof_LhsT))
       \<and> bo_size (a_bo s1) = Some 16777216 \<and> bo_size (b_bo s1) = Some 8192
       \<and> bo_size (c_bo s1) = Some 16777216
       \<and> (\<forall>env' q s input output.
             bo_size (a_bo (instance_of (execute env' q s input output))) = bo_size (a_bo s)
           \<and> bo_size (b_bo (instance_of (execute env' q s input output))) = bo_size (b_bo s)
           \<and> bo_size (c_bo (instance_of (execute env' q s input output))) = bo_size (c_bo s)
           \<and> (\<exists>evs. trace (process_of (execute env' q s input output)) = trace q @ evs
                  \<and> no_alloc evs))"
proof -
  let ?shapes = "[(2048, 4096), (1024, 4096), (512, 4096), (256, 4096), (128, 4096)]
                   :: (int \<times> int) list"
  note c = ctor_result [OF assms(1)]
  have t0: "default_shapes s0 ''rmsnorm_a16'' = Some ?shapes"
    unfolding c(1) by simp
  have x0: "xrt_ctx s0 = Some (xclbin_name env)"
    unfolding c(4) by simp
  have ne: "?shapes \<noteq> []" by simp
  note i = initialize_const_params_sizes [OF t0 x0 ne assms(2)]
  have t1: "default_shapes s1 (txn_fname_prefix s1) = Some ?shapes"
    unfolding i(5,6) c(1,2) by simp
  note sz = i(2-4) [unfolded c(3)]
  have table: "\<exists>shapes. default_shapes s1 (txn_fname_prefix s1) = Some shapes
            \<and> bo_size (a_bo s1)
                = Some (nat (Max ((\<lambda>(rows, cols). rows * cols) ` set shapes)) * sizeof_LhsT)
            \<and> bo_size (b_bo s1)
                = Some (nat (Max ((\<lambda>(rows, cols). cols) ` set shapes)) * sizeof_LhsT)
            \<and> bo_size (c_bo s1)
                = Some (nat (Max ((\<lambda>(rows, cols). rows * cols) ` set shapes)) * sizeof_LhsT)"
    using t1 sz by (intro exI [of _ ?shapes] conjI)
  have sizes: "bo_size (a_bo s1) = Some 16777216" "bo_size (b_bo s1) = Some 8192"
    "bo_size (c_bo s1) = Some 16777216"
    unfolding sz table_maxima sizeof_LhsT_def by simp_all
  have later: "bo_size (a_bo (instance_of (execute env' q s input output))) = bo_size (a_bo s)
           \<and> bo_size (b_bo (instance_of (execute env' q s input output))) = bo_size (b_bo s)
           \<and> bo_size (c_bo (instance_of (execute env' q s input output))) = bo_size (c_bo s)
           \<and> (\<exists>evs. trace (process_of (execute env' q s input output)) = trace q @ evs
                  \<and> no_alloc evs)" for env' q s input "output"
    by (rule execute_sizes [of env' q s input "output"]) (simp add: prod_eq_iff)
  have all_later: "\<forall>env' q s input output.
             bo_size (a_bo (instance_of (execute env' q s input output))) = bo_size (a_bo s)
           \<and> bo_size (b_bo (instance_of (execute env' q s input output))) = bo_size (b_bo s)
           \<and> bo_size (c_bo (instance_of (execute env' q s input output))) = bo_size (c_bo s)
           \<and> (\<exists>evs. trace (process_of (execute env' q s input output)) = trace q @ evs
                  \<and> no_alloc evs)"
    using later by (intro allI)
  from i(1) table sizes all_later show ?thesis
    by (intro conjI)
qed

theorem staging_buffer_sizes_witness:
  "bo_size (a_bo demo_instance) = Some 16777216 \<and> bo_size (b_bo demo_instance) = Some 8192
   \<and> bo_size (c_bo demo_instance) = Some 16777216
   \<and> bo_size (a_bo (instance_of demo_run1)) = Some 16777216"
proof -
  have c: "rms_norm_ctor demo_env initial_process ''bfloat16'' True
      = (Inr (projr (fst demo_ctor)), snd demo_ctor)"
    by (simp add: demo_ctor_eq demo_ctor_def [symmetric])
  have i: "initialize_const_params (snd demo_ctor) (projr (fst demo_ctor)) []
             (Map.empty :: string \<rightharpoonup> unit) = (fst demo_init, demo_process, demo_instance)"
    by (simp add: demo_init_def [symmetric] demo_process_def demo_instance_def)
  note t = staging_buffer_sizes [OF c i]
  from t have a: "bo_size (a_bo demo_instance) = Some 16777216" by (elim conjE)
  from t have b: "bo_size (b_bo demo_instance) = Some 8192" by (elim conjE)
  from t have c: "bo_size (c_bo demo_instance) = Some 16777216" by (elim conjE)
  from t have "bo_size (a_bo (instance_of (execute demo_env demo_process demo_instance
        demo_input demo_output))) = bo_size (a_bo demo_instance)"
    by (elim conjE allE [of _ demo_env] allE [of _ demo_process] allE [of _ demo_instance]
        allE [of _ demo_input] allE [of _ demo_output])
  with a b c show ?thesis by (simp add: demo_run1_def)
qed

subsection \<open>Failure of the instruction lookup\<close>



end
